theory Spec2Isabelle
  imports Main
begin

section \<open>Python library functions used by backend/app.py\<close>

text \<open>
  A Python \<open>str\<close> is modelled as a HOL \<open>string\<close> whose characters are the code points
  below 256. On that range \<open>str.lower\<close> maps \<open>A..Z\<close> and the upper-case letters of
  Latin-1 (\<open>0xC0..0xDE\<close> without the multiplication sign \<open>0xD7\<close>) to the character 32
  places later, and \<open>str.isspace\<close> holds for the code points listed in \<open>py_isspace\<close>.
\<close>

definition py_lower_char :: "char \<Rightarrow> char" where
  "py_lower_char c =
     (let n = (of_char c :: nat)
      in if (65 \<le> n \<and> n \<le> 90) \<or> (192 \<le> n \<and> n \<le> 222 \<and> n \<noteq> 215)
         then char_of (n + 32) else c)"

definition py_lower :: "string \<Rightarrow> string" where
  "py_lower s = map py_lower_char s"

definition py_isspace :: "char \<Rightarrow> bool" where
  "py_isspace c = ((of_char c :: nat) \<in> {9, 10, 11, 12, 13, 28, 29, 30, 31, 32, 133, 160})"

definition py_strip :: "string \<Rightarrow> string" where
  "py_strip s = rev (dropWhile py_isspace (rev (dropWhile py_isspace s)))"

text \<open>\<open>sep.join(xs)\<close>\<close>

fun py_join :: "string \<Rightarrow> string list \<Rightarrow> string" where
  "py_join sep [] = []"
| "py_join sep [x] = x"
| "py_join sep (x # y # ys) = x @ sep @ py_join sep (y # ys)"

text \<open>\<open>s.split(c)\<close> for a one-character separator: never the empty list.\<close>

fun py_split :: "char \<Rightarrow> string \<Rightarrow> string list" where
  "py_split c [] = [[]]"
| "py_split c (x # xs) =
     (if x = c then [] # py_split c xs
      else (case py_split c xs of [] \<Rightarrow> [[x]] | w # ws \<Rightarrow> (x # w) # ws))"

text \<open>\<open>p.rfind(c)\<close>: the highest index of \<open>c\<close> in \<open>p\<close>, or \<open>-1\<close>.\<close>

fun rfind_from :: "string \<Rightarrow> char \<Rightarrow> int \<Rightarrow> int \<Rightarrow> int" where
  "rfind_from [] c i found = found"
| "rfind_from (x # xs) c i found = rfind_from xs c (i + 1) (if x = c then i else found)"

definition rfind :: "string \<Rightarrow> char \<Rightarrow> int" where
  "rfind p c = rfind_from p c 0 (- 1)"

text \<open>
  \<open>os.path.splitext\<close> (posixpath, through \<open>genericpath._splitext\<close>):
  \<^verbatim>\<open>
    sepIndex = p.rfind(sep)
    dotIndex = p.rfind(extsep)
    if dotIndex > sepIndex:
        # skip all leading dots
        filenameIndex = sepIndex + 1
        while filenameIndex < dotIndex:
            if p[filenameIndex:filenameIndex+1] != extsep:
                return p[:dotIndex], p[dotIndex:]
            filenameIndex += 1
    return p, p[:0]
  \<close>
  \<open>splitext_loop\<close> is the while loop; it answers whether the loop returns the split.
\<close>

function splitext_loop :: "string \<Rightarrow> int \<Rightarrow> int \<Rightarrow> bool" where
  "splitext_loop p filenameIndex dotIndex =
     (if filenameIndex < dotIndex
      then (if take 1 (drop (nat filenameIndex) p) \<noteq> ''.'' then True
            else splitext_loop p (filenameIndex + 1) dotIndex)
      else False)"
  by pat_completeness auto
termination
  by (relation "measure (\<lambda>(p, filenameIndex, dotIndex). nat (dotIndex - filenameIndex))") auto

declare splitext_loop.simps [simp del]

definition splitext :: "string \<Rightarrow> string \<times> string" where
  "splitext p =
     (let sepIndex = rfind p CHR ''/'';
          dotIndex = rfind p CHR ''.''
      in if dotIndex > sepIndex \<and> splitext_loop p (sepIndex + 1) dotIndex
         then (take (nat dotIndex) p, drop (nat dotIndex) p)
         else (p, []))"

text \<open>\<open>os.path.join(a, b)\<close> (posixpath) for two components.\<close>

definition path_join :: "string \<Rightarrow> string \<Rightarrow> string" where
  "path_join a b =
     (if take 1 b = ''/'' then b
      else if a = [] \<or> last a = CHR ''/'' then a @ b
      else a @ ''/'' @ b)"

text \<open>\<open>os.path.basename(p)\<close> (posixpath): \<open>p[p.rfind('/') + 1:]\<close>.\<close>

definition basename :: "string \<Rightarrow> string" where
  "basename p = drop (nat (rfind p CHR ''/'' + 1)) p"

section \<open>Configuration (lines 5--12)\<close>

record config =
  UPLOAD_DIR :: string
  RESULT_DIR :: string
  ALLOWED_EXT :: "string set"
  MODEL_SIZE :: string
  DEVICE :: string
  COMPUTE_TYPE :: string

definition getenv :: "(string \<rightharpoonup> string) \<Rightarrow> string \<Rightarrow> string \<Rightarrow> string" where
  "getenv env k d = (case env k of None \<Rightarrow> d | Some v \<Rightarrow> v)"

definition load_config :: "(string \<rightharpoonup> string) \<Rightarrow> config" where
  "load_config env =
     \<lparr> UPLOAD_DIR = getenv env ''UPLOAD_DIR'' ''uploads'',
       RESULT_DIR = getenv env ''RESULT_DIR'' ''results'',
       ALLOWED_EXT =
         set (py_split CHR '','' (getenv env ''ALLOWED_EXT'' ''.mp3,.wav,.m4a,.flac,.mp4,.mov,.mkv'')),
       MODEL_SIZE = getenv env ''MODEL_SIZE'' ''small'',
       DEVICE = getenv env ''DEVICE'' ''auto'',
       COMPUTE_TYPE = getenv env ''COMPUTE_TYPE'' ''auto'' \<rparr>"

section \<open>Data\<close>

text \<open>
  JSON values as \<open>jsonify\<close> and \<open>json.dump\<close> receive them. A Python dict is the list of its
  items in insertion order. Numbers (the floats of the recogniser) are passed through
  unchanged by the code, so their type is a parameter.
\<close>

datatype 'n json =
    JNull
  | JBool bool
  | JNum 'n
  | JStr string
  | JArr "'n json list"
  | JObj "(string \<times> 'n json) list"

text \<open>An exception is represented by \<open>str(e)\<close>, the only thing the handlers read.\<close>

datatype py_exception = Exception (str: string)

text \<open>A \<open>WhisperModel\<close> object, by identity.\<close>

datatype whisper_model = WhisperModelObj nat

text \<open>
  A segment and the info object returned by \<open>model.transcribe\<close>. \<open>getattr(info, name,
  default)\<close> is the only access to \<open>info\<close>. For \<open>language\<close> the outer \<open>None\<close> is an
  absent attribute and \<open>Some None\<close> an attribute whose value is \<open>None\<close>; for \<open>duration\<close>
  the default is \<open>None\<close> itself, so one \<open>None\<close> stands for both.
  The segments are a generator: it yields \<open>segments\<close> and then either ends or raises
  \<open>segments_raise\<close>.
\<close>

record 'n segment =
  seg_start :: 'n
  seg_end :: 'n
  seg_text :: string

record 'n info =
  info_duration :: "'n option"
  info_language :: "string option option"

record 'n transcription =
  segments :: "'n segment list"
  segments_raise :: "py_exception option"
  info :: "'n info"

text \<open>
  \<open>subprocess.run\<close> either raises (the executable is missing) or completes with a return
  code and the captured stderr; \<open>written\<close> is what the tool wrote to its output path
  (the last argument of the command), if anything.
\<close>

datatype run_result =
    RunRaised py_exception
  | Completed (returncode: int) (stderr: string) (written: "string option")

text \<open>
  Writing a file (\<open>f.save(dst)\<close>, or \<open>open(path, "w")\<close> followed by \<open>json.dump\<close>) either
  completes or raises; the flag of \<open>WriteRaised\<close> tells whether the file had already been
  created or truncated when the exception came. Such a file is \<open>Truncated\<close> on disk.
\<close>

datatype write_result =
    Written
  | WriteRaised py_exception bool

text \<open>Calls to the external collaborators, in order.\<close>

datatype event =
    Call_subprocess_run "string list"
  | Call_WhisperModel string string string "py_exception + whisper_model"
  | Call_transcribe whisper_model string "string option" string

text \<open>
  What the outside world answers during one request: the uuid drawn, whether saving the
  upload and writing the result succeed (by path), what \<open>subprocess.run\<close> returns, whether
  \<open>from faster_whisper import WhisperModel\<close> raises, and what the constructor and
  \<open>model.transcribe\<close> return.
\<close>

record 'n world =
  uuid4 :: string
  file_save :: "string \<Rightarrow> write_result"
  subprocess_run :: "string list \<Rightarrow> run_result"
  import_faster_whisper :: "py_exception option"
  WhisperModel :: "string \<Rightarrow> string \<Rightarrow> string \<Rightarrow> py_exception + whisper_model"
  model_transcribe ::
    "whisper_model \<Rightarrow> string \<Rightarrow> string option \<Rightarrow> string \<Rightarrow> py_exception + 'n transcription"
  json_dump :: "string \<Rightarrow> write_result"

datatype 'n file_content = Blob string | JsonDoc "'n json" | Truncated

text \<open>
  The state that outlives a request: the module global \<open>_model\<close> (here \<open>global_model\<close>),
  the files on disk, and the log of external calls.
\<close>

record 'n state =
  global_model :: "whisper_model option"
  disk :: "string \<rightharpoonup> 'n file_content"
  trace :: "event list"

text \<open>
  The multipart request: \<open>request.files.get("file")\<close> and the two form fields.
  A werkzeug \<open>FileStorage\<close> is falsy exactly when its filename is empty.
\<close>

record file_storage =
  filename :: string
  stream :: string

record request =
  files_file :: "file_storage option"
  form_language :: "string option"
  form_task :: "string option"

record 'n response =
  status_code :: nat
  body :: "'n json"

definition jsonify :: "nat \<Rightarrow> (string \<times> 'n json) list \<Rightarrow> 'n response" where
  "jsonify code items = \<lparr> status_code = code, body = JObj items \<rparr>"

section \<open>The functions of backend/app.py\<close>

definition get_model ::
  "config \<Rightarrow> 'n world \<Rightarrow> 'n state \<Rightarrow> (py_exception + whisper_model) \<times> 'n state" where
  "get_model cfg w st =
     (case global_model st of
        Some m \<Rightarrow> (Inr m, st)
      | None \<Rightarrow>
          (case import_faster_whisper w of
             Some e \<Rightarrow> (Inl e, st)
           | None \<Rightarrow>
               (let device_arg = (if DEVICE cfg = ''auto'' then ''cpu'' else DEVICE cfg);
                    compute_arg = (if COMPUTE_TYPE cfg = ''auto'' then ''default'' else COMPUTE_TYPE cfg);
                    r = WhisperModel w (MODEL_SIZE cfg) device_arg compute_arg;
                    st1 = st\<lparr>trace := trace st @
                             [Call_WhisperModel (MODEL_SIZE cfg) device_arg compute_arg r]\<rparr>
                in case r of
                     Inl e \<Rightarrow> (Inl e, st1)
                   | Inr m \<Rightarrow> (Inr m, st1\<lparr>global_model := Some m\<rparr>))))"

definition is_video :: "string \<Rightarrow> bool" where
  "is_video ext = (py_lower ext \<in> {''.mp4'', ''.mov'', ''.mkv'', ''.avi'', ''.wmv'', ''.m4v''})"

definition ffmpeg_cmd :: "string \<Rightarrow> string \<Rightarrow> string list" where
  "ffmpeg_cmd in_path out_path =
     [''ffmpeg'', ''-y'', ''-i'', in_path, ''-vn'', ''-ac'', ''1'', ''-ar'', ''16000'', out_path]"

definition ffmpeg_extract_audio ::
  "'n world \<Rightarrow> string \<Rightarrow> string \<Rightarrow> 'n state \<Rightarrow> (py_exception + unit) \<times> 'n state" where
  "ffmpeg_extract_audio w in_path out_path st =
     (let cmd = ffmpeg_cmd in_path out_path;
          st1 = st\<lparr>trace := trace st @ [Call_subprocess_run cmd]\<rparr>
      in case subprocess_run w cmd of
           RunRaised e \<Rightarrow> (Inl e, st1)
         | Completed rc err wr \<Rightarrow>
             (let st2 = (case wr of
                           None \<Rightarrow> st1
                         | Some b \<Rightarrow> st1\<lparr>disk := (disk st1)(out_path \<mapsto> Blob b)\<rparr>)
              in if rc \<noteq> 0
                 then (Inl (Exception (''ffmpeg failed: '' @ take 500 err)), st2)
                 else (Inr (), st2)))"

definition healthz :: "'n state \<Rightarrow> 'n response \<times> 'n state" where
  "healthz st = (jsonify 200 [(''ok'', JBool True), (''service'', JStr ''asr-backend'')], st)"

text \<open>The dict built for one segment (line 75), and \<open>s["text"]\<close> read back from it (line 76).\<close>

definition seg_dict :: "'n segment \<Rightarrow> (string \<times> 'n json) list" where
  "seg_dict s = [(''start'', JNum (seg_start s)), (''end'', JNum (seg_end s)), (''text'', JStr (seg_text s))]"

definition dict_text :: "(string \<times> 'n json) list \<Rightarrow> string" where
  "dict_text d = (case map_of d ''text'' of Some (JStr t) \<Rightarrow> t | _ \<Rightarrow> [])"

definition make_result ::
  "config \<Rightarrow> file_storage \<Rightarrow> string option \<Rightarrow> string \<Rightarrow> string \<Rightarrow> 'n transcription \<Rightarrow> 'n json" where
  "make_result cfg f language task audio_path t =
     (let segs = map seg_dict (segments t);
          full_text = py_join '' '' (map (\<lambda>s. py_strip (dict_text s)) segs)
      in JObj
           [(''duration_sec'', (case info_duration (info t) of None \<Rightarrow> JNull | Some d \<Rightarrow> JNum d)),
            (''language'',
               (case info_language (info t) of
                  Some None \<Rightarrow> JNull
                | Some (Some l) \<Rightarrow> JStr l
                | None \<Rightarrow> (case language of None \<Rightarrow> JNull | Some l \<Rightarrow> JStr l))),
            (''segments'', JArr (map JObj segs)),
            (''text'', JStr full_text),
            (''meta'',
               JObj [(''source_filename'', JStr (filename f)),
                     (''audio_path'', JStr (basename audio_path)),
                     (''model'', JStr (MODEL_SIZE cfg)),
                     (''task'', JStr task)])])"

text \<open>The \<open>try\<close> block of \<open>upload\<close> (lines 72--97).\<close>

definition upload_transcribe ::
  "config \<Rightarrow> 'n world \<Rightarrow> file_storage \<Rightarrow> string option \<Rightarrow> string \<Rightarrow> string \<Rightarrow> string \<Rightarrow>
   'n state \<Rightarrow> 'n response \<times> 'n state" where
  "upload_transcribe cfg w f language task job_id audio_path st =
     (case get_model cfg w st of
        (Inl e, st1) \<Rightarrow>
          (jsonify 500 [(''error'', JStr ''transcription failed''), (''detail'', JStr (str e))], st1)
      | (Inr model, st1) \<Rightarrow>
          (let st2 = st1\<lparr>trace := trace st1 @ [Call_transcribe model audio_path language task]\<rparr>
           in case model_transcribe w model audio_path language task of
                Inl e \<Rightarrow>
                  (jsonify 500 [(''error'', JStr ''transcription failed''), (''detail'', JStr (str e))], st2)
              | Inr t \<Rightarrow>
                  (case segments_raise t of
                     Some e \<Rightarrow>
                       (jsonify 500 [(''error'', JStr ''transcription failed''), (''detail'', JStr (str e))],
                        st2)
                   | None \<Rightarrow>
                       (let result = make_result cfg f language task audio_path t;
                            out_path = path_join (RESULT_DIR cfg) (job_id @ ''.json'')
                        in case json_dump w out_path of
                             WriteRaised e touched \<Rightarrow>
                               (jsonify 500
                                  [(''error'', JStr ''transcription failed''), (''detail'', JStr (str e))],
                                if touched then st2\<lparr>disk := (disk st2)(out_path \<mapsto> Truncated)\<rparr>
                                else st2)
                           | Written \<Rightarrow>
                               (jsonify 200
                                  [(''job_id'', JStr job_id), (''status'', JStr ''done''),
                                   (''result'', result)],
                                st2\<lparr>disk := (disk st2)(out_path \<mapsto> JsonDoc result)\<rparr>)))))"

text \<open>
  The view function. \<open>Inr\<close> is the response it returns; \<open>Inl\<close> is an exception that leaves
  it: \<open>f.save\<close> on line 60 is outside both \<open>try\<close> blocks.
\<close>

definition upload ::
  "config \<Rightarrow> 'n world \<Rightarrow> request \<Rightarrow> 'n state \<Rightarrow> (py_exception + 'n response) \<times> 'n state" where
  "upload cfg w req st =
     (let language = (case form_language req of
                        None \<Rightarrow> None
                      | Some l \<Rightarrow> if l = [] then None else Some l);
          task = (case form_task req of None \<Rightarrow> ''transcribe'' | Some t \<Rightarrow> t)
      in case files_file req of
           None \<Rightarrow> (Inr (jsonify 400 [(''error'', JStr ''file is required'')]), st)
         | Some f \<Rightarrow>
             if filename f = [] then (Inr (jsonify 400 [(''error'', JStr ''file is required'')]), st)
             else
               (let ext = py_lower (snd (splitext (filename f)))
                in if ext \<notin> ALLOWED_EXT cfg
                   then (Inr (jsonify 400 [(''error'', JStr (''extension '' @ ext @ '' not allowed''))]), st)
                   else
                     (let job_id = uuid4 w;
                          src_path = path_join (UPLOAD_DIR cfg) (job_id @ ext)
                      in case file_save w src_path of
                           WriteRaised e touched \<Rightarrow>
                             (Inl e,
                              if touched then st\<lparr>disk := (disk st)(src_path \<mapsto> Truncated)\<rparr> else st)
                         | Written \<Rightarrow>
                             (let st1 = st\<lparr>disk := (disk st)(src_path \<mapsto> Blob (stream f))\<rparr>
                              in if is_video ext
                                 then
                                   (let audio_path = path_join (UPLOAD_DIR cfg) (job_id @ ''.wav'')
                                    in case ffmpeg_extract_audio w src_path audio_path st1 of
                                         (Inl e, st2) \<Rightarrow>
                                           (Inr (jsonify 500
                                                   [(''error'', JStr ''audio extraction failed''),
                                                    (''detail'', JStr (str e))]),
                                            st2)
                                       | (Inr u, st2) \<Rightarrow>
                                           apfst Inr
                                             (upload_transcribe cfg w f language task job_id audio_path st2))
                                 else apfst Inr
                                        (upload_transcribe cfg w f language task job_id src_path st1)))))"

text \<open>
  Flask's routing, and a sequence of requests served one after the other. What a view
  returns is sent as it is (\<open>Answer\<close>); an exception that leaves the view is answered by
  Flask's own HTML page with status 500 (\<open>InternalServerError\<close>), which is not JSON.
\<close>

datatype http_request = GET_healthz | POST_upload request

datatype 'n served = Answer "'n response" | InternalServerError py_exception

fun serve :: "config \<Rightarrow> 'n world \<Rightarrow> http_request \<Rightarrow> 'n state \<Rightarrow> 'n served \<times> 'n state" where
  "serve cfg w GET_healthz st = apfst Answer (healthz st)"
| "serve cfg w (POST_upload req) st =
     (case upload cfg w req st of
        (Inl e, st1) \<Rightarrow> (InternalServerError e, st1)
      | (Inr resp, st1) \<Rightarrow> (Answer resp, st1))"

fun serve_all ::
  "config \<Rightarrow> ('n world \<times> http_request) list \<Rightarrow> 'n state \<Rightarrow> 'n served list \<times> 'n state" where
  "serve_all cfg [] st = ([], st)"
| "serve_all cfg ((w, r) # rs) st =
     (case serve cfg w r st of
        (resp, st1) \<Rightarrow> (case serve_all cfg rs st1 of (resps, st2) \<Rightarrow> (resp # resps, st2)))"

section \<open>Notions used to state the properties\<close>

text \<open>
  The local variables of \<open>upload\<close> as functions of its inputs: the two form fields as the
  handler reads them, the lower-cased extension, and the three paths the handler builds.
  \<open>audio_path\<close> is the path handed to the recogniser; \<open>saved\<close> is the state right after
  \<open>f.save(src_path)\<close>; \<open>failed\<close> is the body of the two \<open>except\<close> handlers.
\<close>

definition upload_language :: "request \<Rightarrow> string option" where
  "upload_language req = (case form_language req of None \<Rightarrow> None | Some l \<Rightarrow> if l = [] then None else Some l)"

definition upload_task :: "request \<Rightarrow> string" where
  "upload_task req = (case form_task req of None \<Rightarrow> ''transcribe'' | Some t \<Rightarrow> t)"

definition upload_ext :: "file_storage \<Rightarrow> string" where
  "upload_ext f = py_lower (snd (splitext (filename f)))"

definition src_path :: "config \<Rightarrow> 'n world \<Rightarrow> file_storage \<Rightarrow> string" where
  "src_path cfg w f = path_join (UPLOAD_DIR cfg) (uuid4 w @ upload_ext f)"

definition wav_path :: "config \<Rightarrow> 'n world \<Rightarrow> string" where
  "wav_path cfg w = path_join (UPLOAD_DIR cfg) (uuid4 w @ ''.wav'')"

definition out_path :: "config \<Rightarrow> 'n world \<Rightarrow> string" where
  "out_path cfg w = path_join (RESULT_DIR cfg) (uuid4 w @ ''.json'')"

definition audio_path :: "config \<Rightarrow> 'n world \<Rightarrow> file_storage \<Rightarrow> string" where
  "audio_path cfg w f = (if is_video (upload_ext f) then wav_path cfg w else src_path cfg w f)"

definition saved :: "config \<Rightarrow> 'n world \<Rightarrow> file_storage \<Rightarrow> 'n state \<Rightarrow> 'n state" where
  "saved cfg w f st = st\<lparr>disk := (disk st)(src_path cfg w f \<mapsto> Blob (stream f))\<rparr>"

definition failed :: "string \<Rightarrow> py_exception \<Rightarrow> 'n response" where
  "failed what e = jsonify 500 [(''error'', JStr what), (''detail'', JStr (str e))]"

text \<open>
  Every step after saving the upload succeeds: the conversion (for a video) returns code 0,
  the model handle is obtained, \<open>transcribe\<close> returns \<open>t\<close>, its segments are consumed
  without an exception, and the result file is written.
\<close>

definition upload_succeeds ::
  "config \<Rightarrow> 'n world \<Rightarrow> request \<Rightarrow> file_storage \<Rightarrow> 'n state \<Rightarrow> whisper_model \<Rightarrow>
   'n transcription \<Rightarrow> bool" where
  "upload_succeeds cfg w req f st m t \<longleftrightarrow>
     (is_video (upload_ext f) \<longrightarrow>
        fst (ffmpeg_extract_audio w (src_path cfg w f) (wav_path cfg w) st) = Inr ())
     \<and> fst (get_model cfg w st) = Inr m
     \<and> model_transcribe w m (audio_path cfg w f) (upload_language req) (upload_task req) = Inr t
     \<and> segments_raise t = None
     \<and> json_dump w (out_path cfg w) = Written"

text \<open>Reading a JSON object: the value under a key, and the string under \<open>"text"\<close>.\<close>

definition jget :: "string \<Rightarrow> 'n json \<Rightarrow> 'n json option" where
  "jget k j = (case j of JObj items \<Rightarrow> map_of items k | _ \<Rightarrow> None)"

definition json_text :: "'n json \<Rightarrow> string" where
  "json_text j = (case j of JObj d \<Rightarrow> dict_text d | _ \<Rightarrow> [])"

text \<open>
  Projections of the log of external calls: the events a step appended, the command lines
  given to \<open>subprocess.run\<close>, the paths given to \<open>model.transcribe\<close>, and the outcomes
  of the calls of the \<open>WhisperModel\<close> constructor.
\<close>

definition new_events :: "'n state \<Rightarrow> 'n state \<Rightarrow> event list" where
  "new_events st st' = drop (length (trace st)) (trace st')"

fun conversions :: "event list \<Rightarrow> string list list" where
  "conversions [] = []"
| "conversions (Call_subprocess_run cmd # es) = cmd # conversions es"
| "conversions (e # es) = conversions es"

fun transcribed_paths :: "event list \<Rightarrow> string list" where
  "transcribed_paths [] = []"
| "transcribed_paths (Call_transcribe m path language task # es) = path # transcribed_paths es"
| "transcribed_paths (e # es) = transcribed_paths es"

fun model_constructions :: "event list \<Rightarrow> (py_exception + whisper_model) list" where
  "model_constructions [] = []"
| "model_constructions (Call_WhisperModel sz device compute r # es) = r # model_constructions es"
| "model_constructions (e # es) = model_constructions es"

text \<open>
  The relation between the states before and after any piece of the service, as far as
  the model handle is concerned: the log only grows; a handle that is set stays the same
  and no constructor is called; from an unset handle, the constructor calls that
  succeeded are exactly the handle now stored, if any.
\<close>

definition lazy_step :: "'n state \<Rightarrow> 'n state \<Rightarrow> bool" where
  "lazy_step st st' \<longleftrightarrow>
     (\<exists>es. trace st' = trace st @ es
        \<and> (case global_model st of
             Some m \<Rightarrow> global_model st' = Some m \<and> model_constructions es = []
           | None \<Rightarrow>
               filter (\<lambda>r. \<not> isl r) (model_constructions es) =
                 (case global_model st' of None \<Rightarrow> [] | Some m \<Rightarrow> [Inr m])))"

section \<open>Example inputs\<close>

text \<open>
  The default configuration (no environment variable set), an upload named by its
  filename, a recogniser that answers two segments, and worlds in which one of the
  collaborators or saving the upload fails.
\<close>

definition ex_cfg :: config where
  "ex_cfg = load_config Map.empty"

definition ex_file :: "string \<Rightarrow> file_storage" where
  "ex_file name = \<lparr> filename = name, stream = ''data'' \<rparr>"

definition ex_req :: "string \<Rightarrow> request" where
  "ex_req name = \<lparr> files_file = Some (ex_file name), form_language = None, form_task = None \<rparr>"

definition ex_no_file :: request where
  "ex_no_file = \<lparr> files_file = None, form_language = None, form_task = None \<rparr>"

definition ex_transcription :: "int transcription" where
  "ex_transcription =
     \<lparr> segments = [\<lparr> seg_start = 0, seg_end = 2, seg_text = '' hello'' \<rparr>,
                   \<lparr> seg_start = 2, seg_end = 5, seg_text = '' world '' \<rparr>],
       segments_raise = None,
       info = \<lparr> info_duration = Some 5, info_language = Some (Some ''en'') \<rparr> \<rparr>"

definition ex_world :: "int world" where
  "ex_world =
     \<lparr> uuid4 = ''j1'',
       file_save = (\<lambda>path. Written),
       subprocess_run = (\<lambda>cmd. Completed 0 [] (Some ''RIFF'')),
       import_faster_whisper = None,
       WhisperModel = (\<lambda>sz device compute. Inr (WhisperModelObj 1)),
       model_transcribe = (\<lambda>m path language task. Inr ex_transcription),
       json_dump = (\<lambda>path. Written) \<rparr>"

definition ex_world_ffmpeg_fails :: "int world" where
  "ex_world_ffmpeg_fails = ex_world\<lparr> subprocess_run := (\<lambda>cmd. Completed 1 ''boom'' None) \<rparr>"

definition ex_world_no_model :: "int world" where
  "ex_world_no_model =
     ex_world\<lparr> WhisperModel := (\<lambda>sz device compute. Inl (Exception ''model download failed'')) \<rparr>"

definition ex_world_transcribe_fails :: "int world" where
  "ex_world_transcribe_fails =
     ex_world\<lparr> model_transcribe := (\<lambda>m path language task. Inl (Exception ''decode error'')) \<rparr>"


definition ex_state :: "int state" where
  "ex_state = \<lparr> global_model = None, disk = Map.empty, trace = [] \<rparr>"

definition ex_requests :: "(int world \<times> http_request) list" where
  "ex_requests =
     [(ex_world_no_model, POST_upload (ex_req ''talk.mp3'')),
      (ex_world, POST_upload (ex_req ''talk.mp3''))]"

definition ex_state_loaded :: "int state" where
  "ex_state_loaded = \<lparr> global_model = Some (WhisperModelObj 7), disk = Map.empty, trace = [] \<rparr>"

section \<open>The handler, case by case\<close>

lemma status_jsonify [simp]: "status_code (jsonify c items) = c"
  by (simp add: jsonify_def)

lemma body_jsonify [simp]: "body (jsonify c items) = JObj items"
  by (simp add: jsonify_def)

lemma dict_text_seg_dict [simp]: "dict_text (seg_dict s) = seg_text s"
  by (simp add: dict_text_def seg_dict_def)

lemma upload_None:
  "files_file req = None \<Longrightarrow> upload cfg w req st = (Inr (jsonify 400 [(''error'', JStr ''file is required'')]), st)"
  by (simp add: upload_def Let_def)

lemma upload_empty_filename:
  "files_file req = Some f \<Longrightarrow> filename f = [] \<Longrightarrow>
   upload cfg w req st = (Inr (jsonify 400 [(''error'', JStr ''file is required'')]), st)"
  by (simp add: upload_def Let_def)

lemma upload_not_allowed:
  "files_file req = Some f \<Longrightarrow> filename f \<noteq> [] \<Longrightarrow> upload_ext f \<notin> ALLOWED_EXT cfg \<Longrightarrow>
   upload cfg w req st =
     (Inr (jsonify 400 [(''error'', JStr (''extension '' @ upload_ext f @ '' not allowed''))]), st)"
  by (simp add: upload_def Let_def upload_ext_def)

lemma upload_save_fails:
  "files_file req = Some f \<Longrightarrow> filename f \<noteq> [] \<Longrightarrow> upload_ext f \<in> ALLOWED_EXT cfg \<Longrightarrow>
   file_save w (src_path cfg w f) = WriteRaised e touched \<Longrightarrow>
   upload cfg w req st =
     (Inl e, if touched then st\<lparr>disk := (disk st)(src_path cfg w f \<mapsto> Truncated)\<rparr> else st)"
  by (simp add: upload_def Let_def upload_ext_def src_path_def)

lemma upload_audio:
  "files_file req = Some f \<Longrightarrow> filename f \<noteq> [] \<Longrightarrow> upload_ext f \<in> ALLOWED_EXT cfg \<Longrightarrow>
   file_save w (src_path cfg w f) = Written \<Longrightarrow> \<not> is_video (upload_ext f) \<Longrightarrow>
   upload cfg w req st =
     apfst Inr
       (upload_transcribe cfg w f (upload_language req) (upload_task req) (uuid4 w) (src_path cfg w f)
          (saved cfg w f st))"
  by (simp add: upload_def Let_def upload_ext_def upload_language_def upload_task_def
      src_path_def saved_def)

lemma upload_video:
  "files_file req = Some f \<Longrightarrow> filename f \<noteq> [] \<Longrightarrow> upload_ext f \<in> ALLOWED_EXT cfg \<Longrightarrow>
   file_save w (src_path cfg w f) = Written \<Longrightarrow> is_video (upload_ext f) \<Longrightarrow>
   upload cfg w req st =
     (case ffmpeg_extract_audio w (src_path cfg w f) (wav_path cfg w) (saved cfg w f st) of
        (Inl e, st2) \<Rightarrow> (Inr (failed ''audio extraction failed'' e), st2)
      | (Inr u, st2) \<Rightarrow>
          apfst Inr
            (upload_transcribe cfg w f (upload_language req) (upload_task req) (uuid4 w)
               (wav_path cfg w) st2))"
  by (simp add: upload_def Let_def upload_ext_def upload_language_def upload_task_def
      src_path_def wav_path_def saved_def failed_def split: prod.split sum.split)

lemma ffmpeg_extract_audio_effect:
  assumes "ffmpeg_extract_audio w i out st = (r, st')"
  shows "trace st' = trace st @ [Call_subprocess_run (ffmpeg_cmd i out)]"
    and "global_model st' = global_model st"
    and "p \<noteq> out \<Longrightarrow> disk st' p = disk st p"
    and "disk st p \<noteq> None \<Longrightarrow> disk st' p \<noteq> None"
  using assms
  by (auto simp: ffmpeg_extract_audio_def Let_def split: run_result.splits option.splits if_splits)

lemma ffmpeg_extract_audio_fst:
  "fst (ffmpeg_extract_audio w i out st) = fst (ffmpeg_extract_audio w i out st0)"
  by (simp add: ffmpeg_extract_audio_def Let_def split: run_result.splits option.splits)

lemma ffmpeg_extract_audio_raises:
  "fst (ffmpeg_extract_audio w i out st) =
     (case subprocess_run w (ffmpeg_cmd i out) of
        RunRaised x \<Rightarrow> Inl x
      | Completed rc err wr \<Rightarrow>
          if rc \<noteq> 0 then Inl (Exception (''ffmpeg failed: '' @ take 500 err)) else Inr ())"
  by (simp add: ffmpeg_extract_audio_def Let_def split: run_result.splits option.splits)

lemma get_model_Some:
  "global_model st = Some m \<Longrightarrow> get_model cfg w st = (Inr m, st)"
  by (simp add: get_model_def)


lemma get_model_import_fails:
  "global_model st = None \<Longrightarrow> import_faster_whisper w = Some e \<Longrightarrow> get_model cfg w st = (Inl e, st)"
  by (simp add: get_model_def)

lemma get_model_fst:
  "global_model st = global_model st0 \<Longrightarrow> fst (get_model cfg w st) = fst (get_model cfg w st0)"
  by (simp add: get_model_def Let_def split: option.splits sum.splits)

lemma upload_transcribe_get_model_fails:
  "get_model cfg w st = (Inl e, st1) \<Longrightarrow>
   upload_transcribe cfg w f language task job_id a st = (failed ''transcription failed'' e, st1)"
  by (simp add: upload_transcribe_def failed_def)

lemma upload_transcribe_transcribe_fails:
  "get_model cfg w st = (Inr m, st1) \<Longrightarrow> model_transcribe w m a language task = Inl e \<Longrightarrow>
   upload_transcribe cfg w f language task job_id a st =
     (failed ''transcription failed'' e,
      st1\<lparr>trace := trace st1 @ [Call_transcribe m a language task]\<rparr>)"
  by (simp add: upload_transcribe_def failed_def)

lemma upload_transcribe_segments_fail:
  "get_model cfg w st = (Inr m, st1) \<Longrightarrow> model_transcribe w m a language task = Inr t \<Longrightarrow>
   segments_raise t = Some e \<Longrightarrow>
   upload_transcribe cfg w f language task job_id a st =
     (failed ''transcription failed'' e,
      st1\<lparr>trace := trace st1 @ [Call_transcribe m a language task]\<rparr>)"
  by (simp add: upload_transcribe_def failed_def)

lemma upload_transcribe_dump_fails:
  "get_model cfg w st = (Inr m, st1) \<Longrightarrow> model_transcribe w m a language task = Inr t \<Longrightarrow>
   segments_raise t = None \<Longrightarrow>
   json_dump w (path_join (RESULT_DIR cfg) (job_id @ ''.json'')) = WriteRaised e touched \<Longrightarrow>
   upload_transcribe cfg w f language task job_id a st =
     (failed ''transcription failed'' e,
      if touched
      then st1\<lparr>trace := trace st1 @ [Call_transcribe m a language task],
               disk := (disk st1)(path_join (RESULT_DIR cfg) (job_id @ ''.json'') \<mapsto> Truncated)\<rparr>
      else st1\<lparr>trace := trace st1 @ [Call_transcribe m a language task]\<rparr>)"
  by (simp add: upload_transcribe_def Let_def failed_def)

lemma upload_transcribe_ok:
  "get_model cfg w st = (Inr m, st1) \<Longrightarrow> model_transcribe w m a language task = Inr t \<Longrightarrow>
   segments_raise t = None \<Longrightarrow>
   json_dump w (path_join (RESULT_DIR cfg) (job_id @ ''.json'')) = Written \<Longrightarrow>
   upload_transcribe cfg w f language task job_id a st =
     (jsonify 200 [(''job_id'', JStr job_id), (''status'', JStr ''done''),
                   (''result'', make_result cfg f language task a t)],
      st1\<lparr>trace := trace st1 @ [Call_transcribe m a language task],
          disk := (disk st1)(path_join (RESULT_DIR cfg) (job_id @ ''.json'') \<mapsto>
                     JsonDoc (make_result cfg f language task a t))\<rparr>)"
  by (simp add: upload_transcribe_def Let_def)

lemma new_events_append: "trace st' = trace st @ es \<Longrightarrow> new_events st st' = es"
  by (simp add: new_events_def)

lemma conversions_append [simp]: "conversions (xs @ ys) = conversions xs @ conversions ys"
  by (induction xs rule: conversions.induct) simp_all

lemma transcribed_paths_append [simp]:
  "transcribed_paths (xs @ ys) = transcribed_paths xs @ transcribed_paths ys"
  by (induction xs rule: transcribed_paths.induct) simp_all

lemma model_constructions_append [simp]:
  "model_constructions (xs @ ys) = model_constructions xs @ model_constructions ys"
  by (induction xs rule: model_constructions.induct) simp_all

lemma get_model_trace:
  assumes "get_model cfg w st = (r, st')"
  shows "\<exists>es. trace st' = trace st @ es \<and> conversions es = [] \<and> transcribed_paths es = []
           \<and> (global_model st \<noteq> None \<longrightarrow> es = [])
           \<and> (global_model st = None \<and> import_faster_whisper w = None \<longrightarrow> model_constructions es = [r])"
  using assms
  by (auto simp: get_model_def Let_def split: option.splits sum.splits)

lemma upload_transcribe_cases [consumes 0, case_names model_fails transcribe_fails dump_fails ok]:
  obtains
    (model_fails) e st1 where
      "get_model cfg w st = (Inl e, st1)"
      "upload_transcribe cfg w f language task job_id a st = (failed ''transcription failed'' e, st1)"
  | (transcribe_fails) m st1 e where
      "get_model cfg w st = (Inr m, st1)"
      "model_transcribe w m a language task = Inl e
       \<or> (\<exists>t. model_transcribe w m a language task = Inr t \<and> segments_raise t = Some e)"
      "upload_transcribe cfg w f language task job_id a st =
         (failed ''transcription failed'' e, st1\<lparr>trace := trace st1 @ [Call_transcribe m a language task]\<rparr>)"
  | (dump_fails) m st1 t e touched where
      "get_model cfg w st = (Inr m, st1)"
      "model_transcribe w m a language task = Inr t"
      "segments_raise t = None"
      "json_dump w (path_join (RESULT_DIR cfg) (job_id @ ''.json'')) = WriteRaised e touched"
      "upload_transcribe cfg w f language task job_id a st =
         (failed ''transcription failed'' e,
          if touched
          then st1\<lparr>trace := trace st1 @ [Call_transcribe m a language task],
                   disk := (disk st1)(path_join (RESULT_DIR cfg) (job_id @ ''.json'') \<mapsto> Truncated)\<rparr>
          else st1\<lparr>trace := trace st1 @ [Call_transcribe m a language task]\<rparr>)"
  | (ok) m st1 t where
      "get_model cfg w st = (Inr m, st1)"
      "model_transcribe w m a language task = Inr t"
      "segments_raise t = None"
      "json_dump w (path_join (RESULT_DIR cfg) (job_id @ ''.json'')) = Written"
      "upload_transcribe cfg w f language task job_id a st =
         (jsonify 200 [(''job_id'', JStr job_id), (''status'', JStr ''done''),
                       (''result'', make_result cfg f language task a t)],
          st1\<lparr>trace := trace st1 @ [Call_transcribe m a language task],
              disk := (disk st1)(path_join (RESULT_DIR cfg) (job_id @ ''.json'') \<mapsto>
                         JsonDoc (make_result cfg f language task a t))\<rparr>)"
proof (cases "get_model cfg w st")
  case (Pair r st1)
  show ?thesis
  proof (cases r)
    case (Inl e)
    with Pair model_fails upload_transcribe_get_model_fails show ?thesis by blast
  next
    case (Inr m)
    note m = this
    show ?thesis
    proof (cases "model_transcribe w m a language task")
      case (Inl e)
      with Pair m transcribe_fails upload_transcribe_transcribe_fails show ?thesis by blast
    next
      case (Inr t)
      show ?thesis
      proof (cases "segments_raise t")
        case None
        show ?thesis
        proof (cases "json_dump w (path_join (RESULT_DIR cfg) (job_id @ ''.json''))")
          case Written
          with Pair m Inr None ok upload_transcribe_ok show ?thesis by blast
        next
          case (WriteRaised e touched)
          with Pair m Inr None dump_fails upload_transcribe_dump_fails show ?thesis by blast
        qed
      next
        case (Some e)
        with Pair m Inr transcribe_fails upload_transcribe_segments_fail show ?thesis by blast
      qed
    qed
  qed
qed

lemma upload_accepted_cases [consumes 4, case_names extraction_failed transcribing]:
  assumes "files_file req = Some f" "filename f \<noteq> []" "upload_ext f \<in> ALLOWED_EXT cfg"
    and "file_save w (src_path cfg w f) = Written"
  obtains
    (extraction_failed) e st2 where
      "is_video (upload_ext f)"
      "ffmpeg_extract_audio w (src_path cfg w f) (wav_path cfg w) (saved cfg w f st) = (Inl e, st2)"
      "upload cfg w req st = (Inr (failed ''audio extraction failed'' e), st2)"
  | (transcribing) st2 where
      "is_video (upload_ext f) \<Longrightarrow>
         ffmpeg_extract_audio w (src_path cfg w f) (wav_path cfg w) (saved cfg w f st) = (Inr (), st2)"
      "\<not> is_video (upload_ext f) \<Longrightarrow> st2 = saved cfg w f st"
      "upload cfg w req st =
         apfst Inr
           (upload_transcribe cfg w f (upload_language req) (upload_task req) (uuid4 w)
              (audio_path cfg w f) st2)"
proof (cases "is_video (upload_ext f)")
  case False
  with assms transcribing [of "saved cfg w f st"] show ?thesis
    by (simp add: upload_audio audio_path_def)
next
  case True
  obtain r st2 where ff:
    "ffmpeg_extract_audio w (src_path cfg w f) (wav_path cfg w) (saved cfg w f st) = (r, st2)"
    by (cases "ffmpeg_extract_audio w (src_path cfg w f) (wav_path cfg w) (saved cfg w f st)")
  show ?thesis
  proof (cases r)
    case (Inl e)
    with assms True ff extraction_failed [of e st2] show ?thesis
      by (simp add: upload_video)
  next
    case (Inr u)
    with assms True ff transcribing [of st2] show ?thesis
      by (simp add: upload_video audio_path_def)
  qed
qed

lemma transcribing_state:
  assumes "is_video (upload_ext f) \<Longrightarrow>
         ffmpeg_extract_audio w (src_path cfg w f) (wav_path cfg w) (saved cfg w f st) = (Inr (), st2)"
      and "\<not> is_video (upload_ext f) \<Longrightarrow> st2 = saved cfg w f st"
  shows "global_model st2 = global_model st"
    and "trace st2 = trace st @
           (if is_video (upload_ext f)
            then [Call_subprocess_run (ffmpeg_cmd (src_path cfg w f) (wav_path cfg w))] else [])"
    and "is_video (upload_ext f) \<Longrightarrow>
           fst (ffmpeg_extract_audio w (src_path cfg w f) (wav_path cfg w) st) = Inr ()"
    and "p \<noteq> src_path cfg w f \<Longrightarrow> (is_video (upload_ext f) \<Longrightarrow> p \<noteq> wav_path cfg w) \<Longrightarrow>
           disk st2 p = disk st p"
    and "disk st2 (src_path cfg w f) \<noteq> None"
    and "(is_video (upload_ext f) \<Longrightarrow> src_path cfg w f \<noteq> wav_path cfg w) \<Longrightarrow>
           disk st2 (src_path cfg w f) = Some (Blob (stream f))"
proof -
  show "global_model st2 = global_model st"
    using assms ffmpeg_extract_audio_effect(2) [of w "src_path cfg w f" "wav_path cfg w" "saved cfg w f st" "Inr ()" st2]
    by (cases "is_video (upload_ext f)") (simp_all add: saved_def)
  show "trace st2 = trace st @
           (if is_video (upload_ext f)
            then [Call_subprocess_run (ffmpeg_cmd (src_path cfg w f) (wav_path cfg w))] else [])"
    using assms ffmpeg_extract_audio_effect(1) [of w "src_path cfg w f" "wav_path cfg w" "saved cfg w f st" "Inr ()" st2]
    by (cases "is_video (upload_ext f)") (simp_all add: saved_def)
  show "fst (ffmpeg_extract_audio w (src_path cfg w f) (wav_path cfg w) st) = Inr ()"
    if "is_video (upload_ext f)"
    using assms(1) [OF that]
      ffmpeg_extract_audio_fst [of w "src_path cfg w f" "wav_path cfg w" st "saved cfg w f st"]
    by simp
  show "disk st2 p = disk st p"
    if "p \<noteq> src_path cfg w f" "is_video (upload_ext f) \<Longrightarrow> p \<noteq> wav_path cfg w"
    using that assms
      ffmpeg_extract_audio_effect(3) [of w "src_path cfg w f" "wav_path cfg w" "saved cfg w f st" "Inr ()" st2 p]
    by (cases "is_video (upload_ext f)") (simp_all add: saved_def)
  show "disk st2 (src_path cfg w f) \<noteq> None"
    using assms
      ffmpeg_extract_audio_effect(4) [of w "src_path cfg w f" "wav_path cfg w" "saved cfg w f st" "Inr ()" st2 "src_path cfg w f"]
    by (cases "is_video (upload_ext f)") (simp_all add: saved_def)
  show "disk st2 (src_path cfg w f) = Some (Blob (stream f))"
    if "is_video (upload_ext f) \<Longrightarrow> src_path cfg w f \<noteq> wav_path cfg w"
    using that assms
      ffmpeg_extract_audio_effect(3) [of w "src_path cfg w f" "wav_path cfg w" "saved cfg w f st" "Inr ()" st2 "src_path cfg w f"]
    by (cases "is_video (upload_ext f)") (simp_all add: saved_def)
qed


lemma lazy_step_refl: "lazy_step st st"
  by (auto simp: lazy_step_def split: option.splits)

lemma lazy_step_trans:
  assumes "lazy_step st st'" and "lazy_step st' st''"
  shows "lazy_step st st''"
proof -
  from assms(1) obtain es where es: "trace st' = trace st @ es"
    "case global_model st of
       Some m \<Rightarrow> global_model st' = Some m \<and> model_constructions es = []
     | None \<Rightarrow> filter (\<lambda>r. \<not> isl r) (model_constructions es) =
                 (case global_model st' of None \<Rightarrow> [] | Some m \<Rightarrow> [Inr m])"
    unfolding lazy_step_def by blast
  from assms(2) obtain fs where fs: "trace st'' = trace st' @ fs"
    "case global_model st' of
       Some m \<Rightarrow> global_model st'' = Some m \<and> model_constructions fs = []
     | None \<Rightarrow> filter (\<lambda>r. \<not> isl r) (model_constructions fs) =
                 (case global_model st'' of None \<Rightarrow> [] | Some m \<Rightarrow> [Inr m])"
    unfolding lazy_step_def by blast
  have "trace st'' = trace st @ (es @ fs)"
    using es(1) fs(1) by simp
  moreover have "case global_model st of
       Some m \<Rightarrow> global_model st'' = Some m \<and> model_constructions (es @ fs) = []
     | None \<Rightarrow> filter (\<lambda>r. \<not> isl r) (model_constructions (es @ fs)) =
                 (case global_model st'' of None \<Rightarrow> [] | Some m \<Rightarrow> [Inr m])"
    using es(2) fs(2)
    by (cases "global_model st"; cases "global_model st'") simp_all
  ultimately show ?thesis
    unfolding lazy_step_def by blast
qed

lemma lazy_step_same_handle:
  assumes "trace st' = trace st @ es" and "model_constructions es = []"
    and "global_model st' = global_model st"
  shows "lazy_step st st'"
  unfolding lazy_step_def using assms
  by (intro exI [of _ es]) (simp split: option.splits)

lemma get_model_lazy_step: "lazy_step st (snd (get_model cfg w st))"
proof (cases "global_model st")
  case (Some m)
  then show ?thesis by (simp add: get_model_Some lazy_step_refl)
next
  case None
  then show ?thesis
    unfolding lazy_step_def
    by (simp add: get_model_def Let_def split: sum.splits option.splits)
qed

lemma upload_transcribe_lazy_step:
  "lazy_step st (snd (upload_transcribe cfg w f language task job_id a st))"
proof (cases rule: upload_transcribe_cases [of cfg w st f language task job_id a])
  case (model_fails e st1)
  with get_model_lazy_step [of st cfg w] show ?thesis by simp
next
  case (transcribe_fails m st1 e)
  have "lazy_step st1 (st1\<lparr>trace := trace st1 @ [Call_transcribe m a language task]\<rparr>)"
    by (rule lazy_step_same_handle [of _ _ "[Call_transcribe m a language task]"]) simp_all
  with get_model_lazy_step [of st cfg w] transcribe_fails(1,3) show ?thesis
    by (auto intro: lazy_step_trans)
next
  case (dump_fails m st1 t e touched)
  have "lazy_step st1
          (if touched
           then st1\<lparr>trace := trace st1 @ [Call_transcribe m a language task],
                    disk := (disk st1)(path_join (RESULT_DIR cfg) (job_id @ ''.json'') \<mapsto> Truncated)\<rparr>
           else st1\<lparr>trace := trace st1 @ [Call_transcribe m a language task]\<rparr>)"
    by (rule lazy_step_same_handle [of _ _ "[Call_transcribe m a language task]"]) simp_all
  with get_model_lazy_step [of st cfg w] dump_fails(1,5) show ?thesis
    by (auto intro: lazy_step_trans)
next
  case (ok m st1 t)
  have "lazy_step st1 (st1\<lparr>trace := trace st1 @ [Call_transcribe m a language task],
              disk := (disk st1)(path_join (RESULT_DIR cfg) (job_id @ ''.json'') \<mapsto>
                         JsonDoc (make_result cfg f language task a t))\<rparr>)"
    by (rule lazy_step_same_handle [of _ _ "[Call_transcribe m a language task]"]) simp_all
  with get_model_lazy_step [of st cfg w] ok(1,5) show ?thesis
    by (auto intro: lazy_step_trans)
qed

lemma upload_lazy_step: "lazy_step st (snd (upload cfg w req st))"
proof (cases "files_file req")
  case None
  then show ?thesis by (simp add: upload_None lazy_step_refl)
next
  case (Some f)
  note f = this
  show ?thesis
  proof (cases "filename f = []")
    case True
    with f show ?thesis by (simp add: upload_empty_filename lazy_step_refl)
  next
    case False
    note nonempty = this
    show ?thesis
    proof (cases "upload_ext f \<in> ALLOWED_EXT cfg")
      case False
      with f nonempty show ?thesis by (simp add: upload_not_allowed lazy_step_refl)
    next
      case True
      note allowed = this
      show ?thesis
      proof (cases "file_save w (src_path cfg w f)")
        case (WriteRaised e touched)
        have "lazy_step st (if touched then st\<lparr>disk := (disk st)(src_path cfg w f \<mapsto> Truncated)\<rparr> else st)"
          by (rule lazy_step_same_handle [of _ _ "[]"]) simp_all
        with f nonempty allowed WriteRaised show ?thesis
          by (simp add: upload_save_fails)
      next
        case Written
        with f nonempty allowed show ?thesis
      proof (cases rule: upload_accepted_cases [where w = w and st = st])
        case (extraction_failed e st2)
        note eff = ffmpeg_extract_audio_effect [OF extraction_failed(2)]
        have "lazy_step st st2"
          by (rule lazy_step_same_handle
              [of _ _ "[Call_subprocess_run (ffmpeg_cmd (src_path cfg w f) (wav_path cfg w))]"])
            (simp_all add: eff(1,2) saved_def)
        with extraction_failed(3) show ?thesis by simp
      next
        case (transcribing st2)
        note pre = transcribing_state [OF transcribing(1,2)]
        have "lazy_step st st2"
          by (rule lazy_step_same_handle
              [of _ _ "if is_video (upload_ext f)
                       then [Call_subprocess_run (ffmpeg_cmd (src_path cfg w f) (wav_path cfg w))]
                       else []"])
            (simp_all add: pre(1,2))
        with transcribing(3)
          upload_transcribe_lazy_step [of st2 cfg w f "upload_language req" "upload_task req" "uuid4 w"
            "audio_path cfg w f"]
        show ?thesis by (auto intro: lazy_step_trans)
      qed
      qed
    qed
  qed
qed

lemma snd_serve_upload: "snd (serve cfg w (POST_upload req) st) = snd (upload cfg w req st)"
  by (simp split: prod.split sum.split)

lemma fst_serve_upload:
  "fst (serve cfg w (POST_upload req) st) =
     (case fst (upload cfg w req st) of Inl e \<Rightarrow> InternalServerError e | Inr resp \<Rightarrow> Answer resp)"
  by (simp split: prod.split sum.split)

lemma serve_lazy_step: "lazy_step st (snd (serve cfg w r st))"
proof (cases r)
  case GET_healthz
  then show ?thesis by (simp add: healthz_def lazy_step_refl)
next
  case (POST_upload req)
  have "snd (serve cfg w r st) = snd (upload cfg w req st)"
    unfolding POST_upload by (rule snd_serve_upload)
  then show ?thesis by (simp only: upload_lazy_step)
qed

lemma serve_all_lazy_step: "lazy_step st (snd (serve_all cfg rs st))"
proof (induction rs arbitrary: st)
  case Nil
  show ?case by (simp add: lazy_step_refl)
next
  case (Cons a rs)
  obtain w r where a: "a = (w, r)" by (cases a)
  obtain resp st1 where s: "serve cfg w r st = (resp, st1)" by (cases "serve cfg w r st")
  have "lazy_step st st1" using serve_lazy_step [of st cfg w r] s by simp
  moreover have "lazy_step st1 (snd (serve_all cfg rs st1))" by (rule Cons.IH)
  ultimately have "lazy_step st (snd (serve_all cfg rs st1))" by (rule lazy_step_trans)
  then show ?case by (simp add: a s case_prod_beta)
qed

lemma upload_transcribe_fst:
  assumes "global_model s0 = global_model s"
  shows "fst (upload_transcribe cfg w f language task job_id a s0) =
         fst (upload_transcribe cfg w f language task job_id a s)"
proof -
  obtain r0 t0 where a: "get_model cfg w s0 = (r0, t0)" by (cases "get_model cfg w s0")
  obtain r1 t1 where b: "get_model cfg w s = (r1, t1)" by (cases "get_model cfg w s")
  from get_model_fst [OF assms, of cfg w] a b have "r0 = r1" by simp
  with a b show ?thesis
    by (simp add: upload_transcribe_def Let_def split: sum.splits option.splits write_result.splits)
qed

lemma upload_fst:
  assumes "global_model st0 = global_model st"
  shows "fst (upload cfg w req st0) = fst (upload cfg w req st)"
proof (cases "files_file req")
  case None
  then show ?thesis by (simp add: upload_None)
next
  case (Some f)
  note f = this
  show ?thesis
  proof (cases "filename f = []")
    case True
    with f show ?thesis by (simp add: upload_empty_filename)
  next
    case False
    note nonempty = this
    show ?thesis
    proof (cases "upload_ext f \<in> ALLOWED_EXT cfg")
      case False
      with f nonempty show ?thesis by (simp add: upload_not_allowed)
    next
      case True
      note allowed = this
      show ?thesis
      proof (cases "file_save w (src_path cfg w f)")
        case (WriteRaised e touched)
        with f nonempty allowed show ?thesis
          by (simp add: upload_save_fails)
      next
        case Written
        note saved = this
      show ?thesis
      proof (cases "is_video (upload_ext f)")
        case False
        have "global_model (saved cfg w f st0) = global_model (saved cfg w f st)"
          using assms by (simp add: saved_def)
        from upload_transcribe_fst [OF this] f nonempty allowed saved False show ?thesis
          by (simp add: upload_audio)
      next
        case True
        obtain r st2 where a:
          "ffmpeg_extract_audio w (src_path cfg w f) (wav_path cfg w) (saved cfg w f st) = (r, st2)"
          by (cases "ffmpeg_extract_audio w (src_path cfg w f) (wav_path cfg w) (saved cfg w f st)")
        obtain r0 st3 where b:
          "ffmpeg_extract_audio w (src_path cfg w f) (wav_path cfg w) (saved cfg w f st0) = (r0, st3)"
          by (cases "ffmpeg_extract_audio w (src_path cfg w f) (wav_path cfg w) (saved cfg w f st0)")
        have "r0 = r"
          using a b
            ffmpeg_extract_audio_fst [of w "src_path cfg w f" "wav_path cfg w" "saved cfg w f st0" "saved cfg w f st"]
          by simp
        moreover have "global_model st3 = global_model st2"
          using ffmpeg_extract_audio_effect(2) [OF a] ffmpeg_extract_audio_effect(2) [OF b] assms
          by (simp add: saved_def)
        note upload_transcribe_fst [OF this]
        ultimately show ?thesis
          using f nonempty allowed saved True a b
          by (cases r) (simp_all add: upload_video)
      qed
      qed
    qed
  qed
qed


lemma make_result_explicit:
  "make_result cfg f language task a t =
     JObj [(''duration_sec'', (case info_duration (info t) of None \<Rightarrow> JNull | Some d \<Rightarrow> JNum d)),
           (''language'',
              (case info_language (info t) of
                 Some None \<Rightarrow> JNull
               | Some (Some l) \<Rightarrow> JStr l
               | None \<Rightarrow> (case language of None \<Rightarrow> JNull | Some l \<Rightarrow> JStr l))),
           (''segments'',
              JArr (map (\<lambda>s. JObj [(''start'', JNum (seg_start s)), (''end'', JNum (seg_end s)),
                                    (''text'', JStr (seg_text s))])
                      (segments t))),
           (''text'', JStr (py_join '' '' (map (\<lambda>s. py_strip (seg_text s)) (segments t)))),
           (''meta'',
              JObj [(''source_filename'', JStr (filename f)),
                    (''audio_path'', JStr (basename a)),
                    (''model'', JStr (MODEL_SIZE cfg)),
                    (''task'', JStr task)])]"
  by (simp add: make_result_def Let_def comp_def seg_dict_def dict_text_def)





lemma upload_200:
  assumes "fst (upload cfg w req st) = Inr resp" and "status_code resp = 200"
  shows "\<exists>f m t st1.
           files_file req = Some f \<and> filename f \<noteq> [] \<and> upload_ext f \<in> ALLOWED_EXT cfg
         \<and> file_save w (src_path cfg w f) = Written
         \<and> (is_video (upload_ext f) \<longrightarrow>
              fst (ffmpeg_extract_audio w (src_path cfg w f) (wav_path cfg w) st) = Inr ())
         \<and> fst (get_model cfg w st) = Inr m
         \<and> model_transcribe w m (audio_path cfg w f) (upload_language req) (upload_task req) = Inr t
         \<and> segments_raise t = None
         \<and> json_dump w (out_path cfg w) = Written
         \<and> upload cfg w req st =
             (Inr (jsonify 200
                     [(''job_id'', JStr (uuid4 w)), (''status'', JStr ''done''),
                      (''result'', make_result cfg f (upload_language req) (upload_task req)
                                     (audio_path cfg w f) t)]),
              st1\<lparr>disk := (disk st1)(out_path cfg w \<mapsto>
                      JsonDoc (make_result cfg f (upload_language req) (upload_task req)
                                 (audio_path cfg w f) t))\<rparr>)"
proof (cases "files_file req")
  case None
  with assms show ?thesis by (auto simp: upload_None)
next
  case (Some f)
  note f = this
  show ?thesis
  proof (cases "filename f = []")
    case True
    with f assms show ?thesis by (auto simp: upload_empty_filename)
  next
    case False
    note nonempty = this
    show ?thesis
    proof (cases "upload_ext f \<in> ALLOWED_EXT cfg")
      case False
      with f nonempty assms show ?thesis by (auto simp: upload_not_allowed)
    next
      case True
      note allowed = this
      show ?thesis
      proof (cases "file_save w (src_path cfg w f)")
        case (WriteRaised e touched)
        with f nonempty allowed assms show ?thesis by (simp add: upload_save_fails)
      next
        case Written
        note saved = this
        from f nonempty allowed saved show ?thesis
        proof (cases rule: upload_accepted_cases [where w = w and st = st])
          case (extraction_failed e st2)
          with assms show ?thesis by (auto simp: failed_def)
        next
          case (transcribing st2)
          note pre = transcribing_state [OF transcribing(1,2)]
          have fgm: "fst (get_model cfg w st2) = fst (get_model cfg w st)"
            by (rule get_model_fst [OF pre(1)])
          show ?thesis
          proof (cases rule: upload_transcribe_cases
              [of cfg w st2 f "upload_language req" "upload_task req" "uuid4 w" "audio_path cfg w f"])
            case (model_fails e st1)
            with transcribing(3) assms show ?thesis by (auto simp: failed_def)
          next
            case (transcribe_fails m st1 e)
            with transcribing(3) assms show ?thesis by (auto simp: failed_def)
          next
            case (dump_fails m st1 t e touched)
            with transcribing(3) assms show ?thesis by (auto simp: failed_def)
          next
            case (ok m st1 t)
            from ok(1) fgm have gm: "fst (get_model cfg w st) = Inr m" by (metis fst_conv)
            show ?thesis
              apply (rule exI [of _ f], rule exI [of _ m], rule exI [of _ t])
              apply (rule exI [of _ "st1\<lparr>trace := trace st1 @
                        [Call_transcribe m (audio_path cfg w f) (upload_language req) (upload_task req)]\<rparr>"])
              using f nonempty allowed saved pre(3) gm ok(2,3,4,5) transcribing(3)
              apply (simp add: out_path_def)
              done
          qed
        qed
      qed
    qed
  qed
qed

section \<open>Properties of the service\<close>

subsection \<open>Rejected requests\<close>

text \<open>
  C1: an upload whose file part has a lower-cased extension outside \<open>ALLOWED_EXT\<close> is
  answered with status 400 and a JSON object holding an \<open>error\<close> message; the state is
  left as it was, so neither ffmpeg nor the model is called.
\<close>

theorem upload_rejects_extension:
  assumes "files_file req = Some f" and "upload_ext f \<notin> ALLOWED_EXT cfg"
  shows "(\<exists>msg. fst (upload cfg w req st) =
                  Inr \<lparr>status_code = 400, body = JObj [(''error'', JStr msg)]\<rparr>)
         \<and> snd (upload cfg w req st) = st
         \<and> trace (snd (upload cfg w req st)) = trace st"
  using assms
  by (cases "filename f = []") (simp_all add: upload_empty_filename upload_not_allowed jsonify_def)

text \<open>C1 at \<open>talk.txt\<close> under the default configuration.\<close>

theorem upload_rejects_extension_witness:
  "files_file (ex_req ''talk.txt'') = Some (ex_file ''talk.txt'')
   \<and> upload_ext (ex_file ''talk.txt'') \<notin> ALLOWED_EXT ex_cfg
   \<and> (\<exists>msg. fst (upload ex_cfg ex_world (ex_req ''talk.txt'') ex_state) =
              Inr \<lparr>status_code = 400, body = JObj [(''error'', JStr msg)]\<rparr>)
   \<and> snd (upload ex_cfg ex_world (ex_req ''talk.txt'') ex_state) = ex_state"
proof -
  have h1: "files_file (ex_req ''talk.txt'') = Some (ex_file ''talk.txt'')"
    by (simp add: ex_req_def)
  have h2: "upload_ext (ex_file ''talk.txt'') \<notin> ALLOWED_EXT ex_cfg"
    by code_simp
  from upload_rejects_extension [where w = ex_world and st = ex_state, OF h1 h2] h1 h2
  show ?thesis by blast
qed

text \<open>
  C9: an upload without a \<open>file\<close> part is answered with status 400 and the body
  \<open>{"error": "file is required"}\<close>, and the state (the disk with it) is unchanged.
\<close>

theorem upload_requires_file:
  "files_file req = None \<Longrightarrow>
   upload cfg w req st =
     (Inr \<lparr>status_code = 400, body = JObj [(''error'', JStr ''file is required'')]\<rparr>, st)"
  by (simp add: upload_None jsonify_def)

text \<open>C9 at a request with no file part.\<close>

theorem upload_requires_file_witness:
  "files_file ex_no_file = None
   \<and> upload ex_cfg ex_world ex_no_file ex_state =
       (Inr \<lparr>status_code = 400, body = JObj [(''error'', JStr ''file is required'')]\<rparr>, ex_state)"
proof -
  have h: "files_file ex_no_file = None"
    by (simp add: ex_no_file_def)
  from upload_requires_file [OF h] h show ?thesis by simp
qed

subsection \<open>Failures of the collaborators\<close>

text \<open>
  C2: for an accepted upload that has been saved, an exception of the ffmpeg step (\<open>subprocess.run\<close> raising, or
  a non-zero return code turned into \<open>RuntimeError("ffmpeg failed: ...")\<close> with the
  first 500 characters of stderr; these are the only ways it fails) gives status 500 with \<open>detail\<close> the
  message of that exception, and the only external call of the request is the ffmpeg
  command: the model is not touched. When the ffmpeg step did not fail, an exception of
  the model (loading it, calling \<open>transcribe\<close>, or consuming the segments) gives status
  500 with \<open>detail\<close> the message of that exception.
\<close>

theorem upload_failure_is_500:
  assumes "files_file req = Some f" and "filename f \<noteq> []" and "upload_ext f \<in> ALLOWED_EXT cfg"
    and "file_save w (src_path cfg w f) = Written"
  shows
    "(is_video (upload_ext f)
        \<and> fst (ffmpeg_extract_audio w (src_path cfg w f) (wav_path cfg w) st) = Inl e \<longrightarrow>
          fst (upload cfg w req st) =
            Inr \<lparr>status_code = 500,
             body = JObj [(''error'', JStr ''audio extraction failed''), (''detail'', JStr (str e))]\<rparr>
        \<and> new_events st (snd (upload cfg w req st)) =
            [Call_subprocess_run (ffmpeg_cmd (src_path cfg w f) (wav_path cfg w))])
   \<and> ((is_video (upload_ext f) \<longrightarrow>
          fst (ffmpeg_extract_audio w (src_path cfg w f) (wav_path cfg w) st) = Inr ())
        \<and> (fst (get_model cfg w st) = Inl e
           \<or> (\<exists>m. fst (get_model cfg w st) = Inr m
                \<and> (model_transcribe w m (audio_path cfg w f) (upload_language req) (upload_task req) = Inl e
                   \<or> (\<exists>t. model_transcribe w m (audio_path cfg w f) (upload_language req) (upload_task req)
                            = Inr t
                         \<and> segments_raise t = Some e)))) \<longrightarrow>
          fst (upload cfg w req st) =
            Inr \<lparr>status_code = 500,
             body = JObj [(''error'', JStr ''transcription failed''), (''detail'', JStr (str e))]\<rparr>)
   \<and> fst (ffmpeg_extract_audio w (src_path cfg w f) (wav_path cfg w) st) =
       (case subprocess_run w (ffmpeg_cmd (src_path cfg w f) (wav_path cfg w)) of
          RunRaised x \<Rightarrow> Inl x
        | Completed rc err wr \<Rightarrow>
            if rc \<noteq> 0 then Inl (Exception (''ffmpeg failed: '' @ take 500 err)) else Inr ())"
proof -
  have main:
    "(is_video (upload_ext f)
        \<and> fst (ffmpeg_extract_audio w (src_path cfg w f) (wav_path cfg w) st) = Inl e \<longrightarrow>
          fst (upload cfg w req st) =
            Inr \<lparr>status_code = 500,
             body = JObj [(''error'', JStr ''audio extraction failed''), (''detail'', JStr (str e))]\<rparr>
        \<and> new_events st (snd (upload cfg w req st)) =
            [Call_subprocess_run (ffmpeg_cmd (src_path cfg w f) (wav_path cfg w))])
   \<and> ((is_video (upload_ext f) \<longrightarrow>
          fst (ffmpeg_extract_audio w (src_path cfg w f) (wav_path cfg w) st) = Inr ())
        \<and> (fst (get_model cfg w st) = Inl e
           \<or> (\<exists>m. fst (get_model cfg w st) = Inr m
                \<and> (model_transcribe w m (audio_path cfg w f) (upload_language req) (upload_task req) = Inl e
                   \<or> (\<exists>t. model_transcribe w m (audio_path cfg w f) (upload_language req) (upload_task req)
                            = Inr t
                         \<and> segments_raise t = Some e)))) \<longrightarrow>
          fst (upload cfg w req st) =
            Inr \<lparr>status_code = 500,
             body = JObj [(''error'', JStr ''transcription failed''), (''detail'', JStr (str e))]\<rparr>)"
    using assms
  proof (cases rule: upload_accepted_cases [where w = w and st = st])
    case (extraction_failed e' st2)
    have "fst (ffmpeg_extract_audio w (src_path cfg w f) (wav_path cfg w) st) = Inl e'"
      using extraction_failed(2)
        ffmpeg_extract_audio_fst [of w "src_path cfg w f" "wav_path cfg w" st "saved cfg w f st"]
      by simp
    moreover have "trace st2 = trace st @ [Call_subprocess_run (ffmpeg_cmd (src_path cfg w f) (wav_path cfg w))]"
      using ffmpeg_extract_audio_effect(1) [OF extraction_failed(2)] by (simp add: saved_def)
    ultimately show ?thesis
      using extraction_failed by (auto simp: failed_def jsonify_def new_events_def)
  next
    case (transcribing st2)
    have ff: "fst (ffmpeg_extract_audio w (src_path cfg w f) (wav_path cfg w) st) = Inr ()"
      if "is_video (upload_ext f)"
      using transcribing(1) [OF that]
        ffmpeg_extract_audio_fst [of w "src_path cfg w f" "wav_path cfg w" st "saved cfg w f st"]
      by simp
    have gm: "global_model st2 = global_model st"
    proof (cases "is_video (upload_ext f)")
      case True
      from ffmpeg_extract_audio_effect(2) [OF transcribing(1) [OF True]] show ?thesis
        by (simp add: saved_def)
    next
      case False
      with transcribing(2) show ?thesis by (simp add: saved_def)
    qed
    have fgm: "fst (get_model cfg w st2) = fst (get_model cfg w st)"
      by (rule get_model_fst [OF gm])
    show ?thesis
    proof (cases rule: upload_transcribe_cases
        [of cfg w st2 f "upload_language req" "upload_task req" "uuid4 w" "audio_path cfg w f"])
      case (model_fails e' st1)
      with transcribing(3) fgm ff show ?thesis
        by (auto simp: failed_def jsonify_def)
    next
      case (transcribe_fails m st1 e')
      with transcribing(3) fgm ff show ?thesis
        by (auto simp: failed_def jsonify_def)
    next
      case (dump_fails m st1 t e' touched)
      with transcribing(3) fgm ff show ?thesis
        by auto
    next
      case (ok m st1 t)
      with transcribing(3) fgm ff show ?thesis
        by auto
    qed
  qed
  from main ffmpeg_extract_audio_raises [of w "src_path cfg w f" "wav_path cfg w" st]
  show ?thesis by blast
qed

text \<open>C2 at a video whose conversion returns code 1, and at an audio file whose transcription raises.\<close>

theorem upload_failure_is_500_witness:
  "is_video (upload_ext (ex_file ''talk.mp4''))
   \<and> fst (upload ex_cfg ex_world_ffmpeg_fails (ex_req ''talk.mp4'') ex_state) =
       Inr \<lparr>status_code = 500,
        body = JObj [(''error'', JStr ''audio extraction failed''),
                     (''detail'', JStr ''ffmpeg failed: boom'')]\<rparr>
   \<and> new_events ex_state (snd (upload ex_cfg ex_world_ffmpeg_fails (ex_req ''talk.mp4'') ex_state)) =
       [Call_subprocess_run (ffmpeg_cmd ''uploads/j1.mp4'' ''uploads/j1.wav'')]
   \<and> fst (upload ex_cfg ex_world_transcribe_fails (ex_req ''talk.mp3'') ex_state) =
       Inr \<lparr>status_code = 500,
        body = JObj [(''error'', JStr ''transcription failed''), (''detail'', JStr ''decode error'')]\<rparr>"
proof -
  have a1: "files_file (ex_req ''talk.mp4'') = Some (ex_file ''talk.mp4'')"
    by (simp add: ex_req_def)
  have a2: "filename (ex_file ''talk.mp4'') \<noteq> []"
    by (simp add: ex_file_def)
  have a3: "upload_ext (ex_file ''talk.mp4'') \<in> ALLOWED_EXT ex_cfg"
    by code_simp
  have a4: "is_video (upload_ext (ex_file ''talk.mp4''))"
    by code_simp
  have a5: "fst (ffmpeg_extract_audio ex_world_ffmpeg_fails
                 (src_path ex_cfg ex_world_ffmpeg_fails (ex_file ''talk.mp4''))
                 (wav_path ex_cfg ex_world_ffmpeg_fails) ex_state) =
             Inl (Exception ''ffmpeg failed: boom'')"
    by code_simp
  have a6: "src_path ex_cfg ex_world_ffmpeg_fails (ex_file ''talk.mp4'') = ''uploads/j1.mp4''"
    by code_simp
  have a7: "wav_path ex_cfg ex_world_ffmpeg_fails = ''uploads/j1.wav''"
    by code_simp
  have b1: "files_file (ex_req ''talk.mp3'') = Some (ex_file ''talk.mp3'')"
    by (simp add: ex_req_def)
  have b2: "filename (ex_file ''talk.mp3'') \<noteq> []"
    by (simp add: ex_file_def)
  have b3: "upload_ext (ex_file ''talk.mp3'') \<in> ALLOWED_EXT ex_cfg"
    by code_simp
  have b4: "\<not> is_video (upload_ext (ex_file ''talk.mp3''))"
    by code_simp
  have b5: "fst (get_model ex_cfg ex_world_transcribe_fails ex_state) = Inr (WhisperModelObj 1)"
    by code_simp
  have b6: "model_transcribe ex_world_transcribe_fails (WhisperModelObj 1)
              (audio_path ex_cfg ex_world_transcribe_fails (ex_file ''talk.mp3''))
              (upload_language (ex_req ''talk.mp3'')) (upload_task (ex_req ''talk.mp3'')) =
            Inl (Exception ''decode error'')"
    by code_simp
  have a8: "file_save ex_world_ffmpeg_fails (src_path ex_cfg ex_world_ffmpeg_fails (ex_file ''talk.mp4'')) =
            Written"
    by code_simp
  have b7: "file_save ex_world_transcribe_fails
              (src_path ex_cfg ex_world_transcribe_fails (ex_file ''talk.mp3'')) = Written"
    by code_simp
  note A = upload_failure_is_500
    [where w = ex_world_ffmpeg_fails and st = ex_state and e = "Exception ''ffmpeg failed: boom''",
      OF a1 a2 a3 a8]
  note B = upload_failure_is_500
    [where w = ex_world_transcribe_fails and st = ex_state and e = "Exception ''decode error''",
      OF b1 b2 b3 b7]
  from A a4 a5 a6 a7 have
    "fst (upload ex_cfg ex_world_ffmpeg_fails (ex_req ''talk.mp4'') ex_state) =
       Inr \<lparr>status_code = 500,
        body = JObj [(''error'', JStr ''audio extraction failed''),
                     (''detail'', JStr ''ffmpeg failed: boom'')]\<rparr>
     \<and> new_events ex_state (snd (upload ex_cfg ex_world_ffmpeg_fails (ex_req ''talk.mp4'') ex_state)) =
       [Call_subprocess_run (ffmpeg_cmd ''uploads/j1.mp4'' ''uploads/j1.wav'')]"
    by simp
  moreover from B b4 b5 b6 have
    "fst (upload ex_cfg ex_world_transcribe_fails (ex_req ''talk.mp3'') ex_state) =
       Inr \<lparr>status_code = 500,
        body = JObj [(''error'', JStr ''transcription failed''), (''detail'', JStr ''decode error'')]\<rparr>"
    by simp
  ultimately show ?thesis using a4 by simp
qed

subsection \<open>Conversion and transcription\<close>

text \<open>
  C3, as the code has it: for an accepted and saved video upload the first external call is ffmpeg
  with the arguments for a mono 16 kHz WAV, from the saved upload to \<open><job_id>.wav\<close>,
  and it is the only conversion; the model is then run on that WAV path provided the
  conversion succeeded and the model handle was obtained, and not at all otherwise.
  For an accepted upload that is not a video there is no conversion, and the model is
  run on the saved upload path provided the model handle was obtained.
\<close>

theorem conversion_then_transcription:
  assumes "files_file req = Some f" and "filename f \<noteq> []" and "upload_ext f \<in> ALLOWED_EXT cfg"
    and "file_save w (src_path cfg w f) = Written"
  shows "\<exists>es. trace (snd (upload cfg w req st)) = trace st @ es
           \<and> conversions es =
               (if is_video (upload_ext f) then [ffmpeg_cmd (src_path cfg w f) (wav_path cfg w)] else [])
           \<and> (is_video (upload_ext f) \<longrightarrow>
                (\<exists>rest. es = Call_subprocess_run (ffmpeg_cmd (src_path cfg w f) (wav_path cfg w)) # rest))
           \<and> transcribed_paths es =
               (if (is_video (upload_ext f) \<longrightarrow>
                      fst (ffmpeg_extract_audio w (src_path cfg w f) (wav_path cfg w) st) = Inr ())
                   \<and> \<not> isl (fst (get_model cfg w st))
                then [if is_video (upload_ext f) then wav_path cfg w else src_path cfg w f] else [])"
  using assms
proof (cases rule: upload_accepted_cases [where w = w and st = st])
  case (extraction_failed e st2)
  have "fst (ffmpeg_extract_audio w (src_path cfg w f) (wav_path cfg w) st) = Inl e"
    using extraction_failed(2)
      ffmpeg_extract_audio_fst [of w "src_path cfg w f" "wav_path cfg w" st "saved cfg w f st"]
    by simp
  moreover have "trace st2 = trace st @ [Call_subprocess_run (ffmpeg_cmd (src_path cfg w f) (wav_path cfg w))]"
    using ffmpeg_extract_audio_effect(1) [OF extraction_failed(2)] by (simp add: saved_def)
  ultimately show ?thesis
    using extraction_failed by simp
next
  case (transcribing st2)
  note pre = transcribing_state [OF transcribing(1,2)]
  have fgm: "fst (get_model cfg w st2) = fst (get_model cfg w st)"
    by (rule get_model_fst [OF pre(1)])
  let ?a = "audio_path cfg w f"
  show ?thesis
  proof (cases rule: upload_transcribe_cases
      [of cfg w st2 f "upload_language req" "upload_task req" "uuid4 w" ?a])
    case (model_fails e st1)
    from get_model_trace [OF model_fails(1)] obtain gs where
      gs: "trace st1 = trace st2 @ gs" "conversions gs = []" "transcribed_paths gs = []" by blast
    from model_fails(1) fgm have "fst (get_model cfg w st) = Inl e" by (metis fst_conv)
    then have "isl (fst (get_model cfg w st))" by simp
    with gs pre(2) model_fails(2) transcribing(3) show ?thesis
      by simp
  next
    case (transcribe_fails m st1 e)
    from get_model_trace [OF transcribe_fails(1)] obtain gs where
      gs: "trace st1 = trace st2 @ gs" "conversions gs = []" "transcribed_paths gs = []" by blast
    from transcribe_fails(1) fgm have "fst (get_model cfg w st) = Inr m" by (metis fst_conv)
    then have "\<not> isl (fst (get_model cfg w st))" by simp
    with gs pre(2,3) transcribe_fails(3) transcribing(3) show ?thesis
      by (simp add: audio_path_def)
  next
    case (dump_fails m st1 t e touched)
    from get_model_trace [OF dump_fails(1)] obtain gs where
      gs: "trace st1 = trace st2 @ gs" "conversions gs = []" "transcribed_paths gs = []" by blast
    from dump_fails(1) fgm have "fst (get_model cfg w st) = Inr m" by (metis fst_conv)
    then have "\<not> isl (fst (get_model cfg w st))" by simp
    with gs pre(2,3) dump_fails(5) transcribing(3) show ?thesis
      by (simp add: audio_path_def)
  next
    case (ok m st1 t)
    from get_model_trace [OF ok(1)] obtain gs where
      gs: "trace st1 = trace st2 @ gs" "conversions gs = []" "transcribed_paths gs = []" by blast
    from ok(1) fgm have "fst (get_model cfg w st) = Inr m" by (metis fst_conv)
    then have "\<not> isl (fst (get_model cfg w st))" by simp
    with gs pre(2,3) ok(5) transcribing(3) show ?thesis
      by (simp add: audio_path_def)
  qed
qed

text \<open>C3 (amended) at a video upload where every collaborator succeeds.\<close>

theorem conversion_then_transcription_witness:
  "is_video (upload_ext (ex_file ''talk.mp4''))
   \<and> (\<exists>es. trace (snd (upload ex_cfg ex_world (ex_req ''talk.mp4'') ex_state)) = trace ex_state @ es
          \<and> conversions es = [[''ffmpeg'', ''-y'', ''-i'', ''uploads/j1.mp4'', ''-vn'', ''-ac'', ''1'', ''-ar'', ''16000'',
             ''uploads/j1.wav'']]
          \<and> transcribed_paths es = [''uploads/j1.wav''])"
proof -
  have a1: "files_file (ex_req ''talk.mp4'') = Some (ex_file ''talk.mp4'')"
    by (simp add: ex_req_def)
  have a2: "filename (ex_file ''talk.mp4'') \<noteq> []"
    by (simp add: ex_file_def)
  have a3: "upload_ext (ex_file ''talk.mp4'') \<in> ALLOWED_EXT ex_cfg"
    by code_simp
  have a4: "is_video (upload_ext (ex_file ''talk.mp4''))"
    by code_simp
  have a5: "fst (ffmpeg_extract_audio ex_world (src_path ex_cfg ex_world (ex_file ''talk.mp4''))
                 (wav_path ex_cfg ex_world) ex_state) = Inr ()"
    by code_simp
  have a6: "src_path ex_cfg ex_world (ex_file ''talk.mp4'') = ''uploads/j1.mp4''"
    by code_simp
  have a7: "wav_path ex_cfg ex_world = ''uploads/j1.wav''"
    by code_simp
  have a8: "\<not> isl (fst (get_model ex_cfg ex_world ex_state))"
    by code_simp
  have a9: "file_save ex_world (src_path ex_cfg ex_world (ex_file ''talk.mp4'')) = Written"
    by code_simp
  from conversion_then_transcription [where w = ex_world and st = ex_state, OF a1 a2 a3 a9]
    a4 a5 a6 a7 a8
  show ?thesis by (auto simp: ffmpeg_cmd_def)
qed

text \<open>
  C3 as stated fails: an accepted video upload whose conversion returns a non-zero code
  never reaches the model, on the WAV path or on any other.
\<close>

theorem conversion_then_transcription_counterexample:
  "files_file (ex_req ''talk.mp4'') = Some (ex_file ''talk.mp4'')
   \<and> upload_ext (ex_file ''talk.mp4'') \<in> ALLOWED_EXT ex_cfg
   \<and> is_video (upload_ext (ex_file ''talk.mp4''))
   \<and> conversions (trace (snd (upload ex_cfg ex_world_ffmpeg_fails (ex_req ''talk.mp4'') ex_state))) =
       [[''ffmpeg'', ''-y'', ''-i'', ''uploads/j1.mp4'', ''-vn'', ''-ac'', ''1'', ''-ar'', ''16000'',
             ''uploads/j1.wav'']]
   \<and> transcribed_paths (trace (snd (upload ex_cfg ex_world_ffmpeg_fails (ex_req ''talk.mp4'') ex_state))) = []"
  by code_simp


subsection \<open>The result record\<close>

text \<open>
  C4: when an upload completes successfully, every step has succeeded with some
  transcription \<open>t\<close> returned by the model, and the \<open>result\<close> of the response is the object
  with exactly the keys \<open>duration_sec\<close>, \<open>language\<close>, \<open>segments\<close>, \<open>text\<close> and \<open>meta\<close>,
  holding the duration of \<open>t\<close> (null if it has none), its detected language (the
  requested language if it has none), one object \<open>{start, end, text}\<close> for each segment
  of \<open>t\<close> in order, the joined text of those segments, and the metadata: uploaded
  filename, basename of the transcribed path, model size and task.
\<close>

theorem result_record_shape:
  assumes "fst (upload cfg w req st) = Inr resp" and "status_code resp = 200"
  shows "\<exists>f m t.
           files_file req = Some f
         \<and> upload_succeeds cfg w req f st m t
         \<and> jget ''result'' (body resp) =
             Some (JObj
               [(''duration_sec'', (case info_duration (info t) of None \<Rightarrow> JNull | Some d \<Rightarrow> JNum d)),
                (''language'',
                   (case info_language (info t) of
                      Some None \<Rightarrow> JNull
                    | Some (Some l) \<Rightarrow> JStr l
                    | None \<Rightarrow> (case upload_language req of None \<Rightarrow> JNull | Some l \<Rightarrow> JStr l))),
                (''segments'',
                   JArr (map (\<lambda>s. JObj [(''start'', JNum (seg_start s)), (''end'', JNum (seg_end s)),
                                         (''text'', JStr (seg_text s))])
                           (segments t))),
                (''text'', JStr (py_join '' '' (map (\<lambda>s. py_strip (seg_text s)) (segments t)))),
                (''meta'',
                   JObj [(''source_filename'', JStr (filename f)),
                         (''audio_path'', JStr (basename (audio_path cfg w f))),
                         (''model'', JStr (MODEL_SIZE cfg)),
                         (''task'', JStr (upload_task req))])])"
proof -
  from upload_200 [OF assms] obtain f m t st1 where
    f: "files_file req = Some f" and
    s: "is_video (upload_ext f) \<longrightarrow>
          fst (ffmpeg_extract_audio w (src_path cfg w f) (wav_path cfg w) st) = Inr ()"
       "fst (get_model cfg w st) = Inr m"
       "model_transcribe w m (audio_path cfg w f) (upload_language req) (upload_task req) = Inr t"
       "segments_raise t = None"
       "json_dump w (out_path cfg w) = Written" and
    u: "upload cfg w req st =
         (Inr (jsonify 200
                 [(''job_id'', JStr (uuid4 w)), (''status'', JStr ''done''),
                  (''result'', make_result cfg f (upload_language req) (upload_task req)
                                 (audio_path cfg w f) t)]),
          st1\<lparr>disk := (disk st1)(out_path cfg w \<mapsto>
                  JsonDoc (make_result cfg f (upload_language req) (upload_task req)
                             (audio_path cfg w f) t))\<rparr>)"
    by blast
  from s have "upload_succeeds cfg w req f st m t"
    by (simp add: upload_succeeds_def)
  moreover from u assms(1) have
    "jget ''result'' (body resp) =
       Some (make_result cfg f (upload_language req) (upload_task req) (audio_path cfg w f) t)"
    by (auto simp: jget_def)
  ultimately show ?thesis
    using f unfolding make_result_explicit by blast
qed

text \<open>C4 at a successful video upload: the record carries what the recogniser answered.\<close>

theorem result_record_shape_witness:
  "\<not> isl (fst (upload ex_cfg ex_world (ex_req ''talk.mp4'') ex_state))
   \<and> status_code (projr (fst (upload ex_cfg ex_world (ex_req ''talk.mp4'') ex_state))) = 200
   \<and> jget ''result'' (body (projr (fst (upload ex_cfg ex_world (ex_req ''talk.mp4'') ex_state)))) =
       Some (JObj
         [(''duration_sec'', JNum 5),
          (''language'', JStr ''en''),
          (''segments'',
             JArr [JObj [(''start'', JNum 0), (''end'', JNum 2), (''text'', JStr '' hello'')],
                   JObj [(''start'', JNum 2), (''end'', JNum 5), (''text'', JStr '' world '')]]),
          (''text'', JStr ''hello world''),
          (''meta'',
             JObj [(''source_filename'', JStr ''talk.mp4''),
                   (''audio_path'', JStr ''j1.wav''),
                   (''model'', JStr ''small''),
                   (''task'', JStr ''transcribe'')])])"
proof -
  let ?r = "fst (upload ex_cfg ex_world (ex_req ''talk.mp4'') ex_state)"
  have n: "\<not> isl ?r"
    by code_simp
  then have h1: "?r = Inr (projr ?r)"
    by simp
  have h2: "status_code (projr ?r) = 200"
    by code_simp
  from result_record_shape [OF h1 h2] obtain f m t where
    f: "files_file (ex_req ''talk.mp4'') = Some f" and
    s: "upload_succeeds ex_cfg ex_world (ex_req ''talk.mp4'') f ex_state m t" and
    r: "jget ''result'' (body (projr ?r)) =
          Some (JObj
            [(''duration_sec'', (case info_duration (info t) of None \<Rightarrow> JNull | Some d \<Rightarrow> JNum d)),
             (''language'',
                (case info_language (info t) of
                   Some None \<Rightarrow> JNull
                 | Some (Some l) \<Rightarrow> JStr l
                 | None \<Rightarrow> (case upload_language (ex_req ''talk.mp4'') of
                              None \<Rightarrow> JNull | Some l \<Rightarrow> JStr l))),
             (''segments'',
                JArr (map (\<lambda>s. JObj [(''start'', JNum (seg_start s)), (''end'', JNum (seg_end s)),
                                      (''text'', JStr (seg_text s))])
                        (segments t))),
             (''text'', JStr (py_join '' '' (map (\<lambda>s. py_strip (seg_text s)) (segments t)))),
             (''meta'',
                JObj [(''source_filename'', JStr (filename f)),
                      (''audio_path'', JStr (basename (audio_path ex_cfg ex_world f))),
                      (''model'', JStr (MODEL_SIZE ex_cfg)),
                      (''task'', JStr (upload_task (ex_req ''talk.mp4'')))])])"
    by blast
  from f have f': "f = ex_file ''talk.mp4''"
    by (simp add: ex_req_def)
  from s have t': "t = ex_transcription"
    by (simp add: upload_succeeds_def ex_world_def)
  have k1: "py_join '' '' (map (\<lambda>s. py_strip (seg_text s)) (segments ex_transcription)) = ''hello world''"
    by code_simp
  have k2: "basename (audio_path ex_cfg ex_world (ex_file ''talk.mp4'')) = ''j1.wav''"
    by code_simp
  have k3: "MODEL_SIZE ex_cfg = ''small''"
    by code_simp
  have k4: "upload_task (ex_req ''talk.mp4'') = ''transcribe''"
    by code_simp
  have k5: "filename (ex_file ''talk.mp4'') = ''talk.mp4''"
    by (simp add: ex_file_def)
  have k6: "info ex_transcription = \<lparr> info_duration = Some 5, info_language = Some (Some ''en'') \<rparr>"
    by (simp add: ex_transcription_def)
  have k7: "segments ex_transcription =
              [\<lparr> seg_start = 0, seg_end = 2, seg_text = '' hello'' \<rparr>,
               \<lparr> seg_start = 2, seg_end = 5, seg_text = '' world '' \<rparr>]"
    by (simp add: ex_transcription_def)
  from r have "jget ''result'' (body (projr ?r)) =
       Some (JObj
         [(''duration_sec'', JNum 5),
          (''language'', JStr ''en''),
          (''segments'',
             JArr [JObj [(''start'', JNum 0), (''end'', JNum 2), (''text'', JStr '' hello'')],
                   JObj [(''start'', JNum 2), (''end'', JNum 5), (''text'', JStr '' world '')]]),
          (''text'', JStr ''hello world''),
          (''meta'',
             JObj [(''source_filename'', JStr ''talk.mp4''),
                   (''audio_path'', JStr ''j1.wav''),
                   (''model'', JStr ''small''),
                   (''task'', JStr ''transcribe'')])])"
    unfolding f' t' k1 k2 k3 k4 k5 k6 by (simp add: k7)
  with n h2 show ?thesis by blast
qed

text \<open>
  C5: in the \<open>result\<close> of a successful upload, the \<open>text\<close> field is the \<open>text\<close> of the
  entries of \<open>segments\<close>, each stripped of leading and trailing whitespace, joined in
  order with one space.
\<close>

theorem result_text_is_joined_segments:
  assumes "fst (upload cfg w req st) = Inr resp" and "status_code resp = 200"
  shows "\<exists>result segs txt.
           jget ''result'' (body resp) = Some result
         \<and> jget ''segments'' result = Some (JArr segs)
         \<and> jget ''text'' result = Some (JStr txt)
         \<and> txt = py_join '' '' (map (\<lambda>s. py_strip (json_text s)) segs)"
proof -
  from upload_200 [OF assms] obtain f t st1 where
    u: "upload cfg w req st =
         (Inr (jsonify 200
                 [(''job_id'', JStr (uuid4 w)), (''status'', JStr ''done''),
                  (''result'', make_result cfg f (upload_language req) (upload_task req)
                                 (audio_path cfg w f) t)]),
          st1\<lparr>disk := (disk st1)(out_path cfg w \<mapsto>
                  JsonDoc (make_result cfg f (upload_language req) (upload_task req)
                             (audio_path cfg w f) t))\<rparr>)"
    by blast
  from u assms(1) have "resp = jsonify 200
                 [(''job_id'', JStr (uuid4 w)), (''status'', JStr ''done''),
                  (''result'', make_result cfg f (upload_language req) (upload_task req)
                                 (audio_path cfg w f) t)]"
    by simp
  then show ?thesis
    by (simp add: jget_def make_result_def Let_def json_text_def comp_def)
qed

text \<open>C5 at a successful video upload.\<close>

theorem result_text_is_joined_segments_witness:
  "\<not> isl (fst (upload ex_cfg ex_world (ex_req ''talk.mp4'') ex_state))
   \<and> status_code (projr (fst (upload ex_cfg ex_world (ex_req ''talk.mp4'') ex_state))) = 200
   \<and> (\<exists>result segs txt.
         jget ''result'' (body (projr (fst (upload ex_cfg ex_world (ex_req ''talk.mp4'') ex_state)))) =
           Some result
       \<and> jget ''segments'' result = Some (JArr segs)
       \<and> jget ''text'' result = Some (JStr txt)
       \<and> txt = py_join '' '' (map (\<lambda>s. py_strip (json_text s)) segs))"
proof -
  let ?r = "fst (upload ex_cfg ex_world (ex_req ''talk.mp4'') ex_state)"
  have n: "\<not> isl ?r"
    by code_simp
  then have h1: "?r = Inr (projr ?r)"
    by simp
  have h2: "status_code (projr ?r) = 200"
    by code_simp
  from result_text_is_joined_segments [OF h1 h2] n h2 show ?thesis by blast
qed

text \<open>
  C10: after a successful upload the file \<open><RESULT_DIR>/<job_id>.json\<close> holds the very JSON
  value returned under \<open>result\<close> in the response, whose \<open>job_id\<close> is that job id.
\<close>

theorem persisted_result_equals_response:
  assumes "fst (upload cfg w req st) = Inr resp" and "status_code resp = 200"
  shows "\<exists>r. body resp =
               JObj [(''job_id'', JStr (uuid4 w)), (''status'', JStr ''done''), (''result'', r)]
           \<and> disk (snd (upload cfg w req st)) (path_join (RESULT_DIR cfg) (uuid4 w @ ''.json''))
               = Some (JsonDoc r)"
proof -
  from upload_200 [OF assms] obtain f t st1 where
    u: "upload cfg w req st =
         (Inr (jsonify 200
                 [(''job_id'', JStr (uuid4 w)), (''status'', JStr ''done''),
                  (''result'', make_result cfg f (upload_language req) (upload_task req)
                                 (audio_path cfg w f) t)]),
          st1\<lparr>disk := (disk st1)(out_path cfg w \<mapsto>
                  JsonDoc (make_result cfg f (upload_language req) (upload_task req)
                             (audio_path cfg w f) t))\<rparr>)"
    by blast
  from u assms(1) have "resp = jsonify 200
                 [(''job_id'', JStr (uuid4 w)), (''status'', JStr ''done''),
                  (''result'', make_result cfg f (upload_language req) (upload_task req)
                                 (audio_path cfg w f) t)]"
    by simp
  with u show ?thesis
    by (simp add: out_path_def)
qed

text \<open>C10 at a successful video upload.\<close>

theorem persisted_result_equals_response_witness:
  "\<not> isl (fst (upload ex_cfg ex_world (ex_req ''talk.mp4'') ex_state))
   \<and> status_code (projr (fst (upload ex_cfg ex_world (ex_req ''talk.mp4'') ex_state))) = 200
   \<and> (\<exists>r. body (projr (fst (upload ex_cfg ex_world (ex_req ''talk.mp4'') ex_state))) =
              JObj [(''job_id'', JStr (uuid4 ex_world)), (''status'', JStr ''done''), (''result'', r)]
          \<and> disk (snd (upload ex_cfg ex_world (ex_req ''talk.mp4'') ex_state))
              (path_join (RESULT_DIR ex_cfg) (uuid4 ex_world @ ''.json'')) = Some (JsonDoc r))"
proof -
  let ?r = "fst (upload ex_cfg ex_world (ex_req ''talk.mp4'') ex_state)"
  have n: "\<not> isl ?r"
    by code_simp
  then have h1: "?r = Inr (projr ?r)"
    by simp
  have h2: "status_code (projr ?r) = 200"
    by code_simp
  from persisted_result_equals_response [OF h1 h2] n h2 show ?thesis by blast
qed



subsection \<open>Files left on disk\<close>






subsection \<open>The model handle\<close>

text \<open>
  C7, as the code has it: \<open>get_model\<close> returns a handle that is set, unchanged and without
  calling the constructor; with the handle unset it imports the library (an import that
  raises leaves the state as it was), calls the constructor once and stores the handle
  if the constructor returned one (a constructor that raised leaves the handle unset). Over any sequence of requests a handle that is set stays the same
  and the constructor is not called again, and at most one constructor call succeeds.
  The answer to a request depends on the state left by earlier requests through the
  handle only.
\<close>

theorem model_handle_lazy_singleton:
  "(\<forall>m. global_model st = Some m \<longrightarrow> get_model cfg w st = (Inr m, st))
   \<and> (global_model st = None \<and> import_faster_whisper w = Some e \<longrightarrow>
        get_model cfg w st = (Inl e, st))
   \<and> (global_model st = None \<and> import_faster_whisper w = None \<longrightarrow>
        (let device_arg = (if DEVICE cfg = ''auto'' then ''cpu'' else DEVICE cfg);
             compute_arg = (if COMPUTE_TYPE cfg = ''auto'' then ''default'' else COMPUTE_TYPE cfg);
             r = WhisperModel w (MODEL_SIZE cfg) device_arg compute_arg
         in fst (get_model cfg w st) = r
            \<and> global_model (snd (get_model cfg w st)) = (case r of Inl e \<Rightarrow> None | Inr m \<Rightarrow> Some m)
            \<and> new_events st (snd (get_model cfg w st)) =
                [Call_WhisperModel (MODEL_SIZE cfg) device_arg compute_arg r]))
   \<and> (\<forall>m. global_model st = Some m \<longrightarrow>
          global_model (snd (serve_all cfg rs st)) = Some m
          \<and> model_constructions (new_events st (snd (serve_all cfg rs st))) = [])
   \<and> length (filter (\<lambda>r. \<not> isl r) (model_constructions (new_events st (snd (serve_all cfg rs st))))) \<le> 1
   \<and> (global_model st0 = global_model st \<longrightarrow> fst (serve cfg w r st0) = fst (serve cfg w r st))"
proof (intro conjI)
  show "\<forall>m. global_model st = Some m \<longrightarrow> get_model cfg w st = (Inr m, st)"
    by (simp add: get_model_Some)
  show "global_model st = None \<and> import_faster_whisper w = Some e \<longrightarrow>
        get_model cfg w st = (Inl e, st)"
    by (simp add: get_model_import_fails)
  show "global_model st = None \<and> import_faster_whisper w = None \<longrightarrow>
        (let device_arg = (if DEVICE cfg = ''auto'' then ''cpu'' else DEVICE cfg);
             compute_arg = (if COMPUTE_TYPE cfg = ''auto'' then ''default'' else COMPUTE_TYPE cfg);
             r = WhisperModel w (MODEL_SIZE cfg) device_arg compute_arg
         in fst (get_model cfg w st) = r
            \<and> global_model (snd (get_model cfg w st)) = (case r of Inl e \<Rightarrow> None | Inr m \<Rightarrow> Some m)
            \<and> new_events st (snd (get_model cfg w st)) =
                [Call_WhisperModel (MODEL_SIZE cfg) device_arg compute_arg r])"
    by (simp add: get_model_def Let_def new_events_def split: sum.splits)
  from serve_all_lazy_step [of st cfg rs] obtain es where
    es: "trace (snd (serve_all cfg rs st)) = trace st @ es"
    "case global_model st of
       Some m \<Rightarrow> global_model (snd (serve_all cfg rs st)) = Some m \<and> model_constructions es = []
     | None \<Rightarrow> filter (\<lambda>r. \<not> isl r) (model_constructions es) =
                 (case global_model (snd (serve_all cfg rs st)) of None \<Rightarrow> [] | Some m \<Rightarrow> [Inr m])"
    unfolding lazy_step_def by blast
  have ne: "new_events st (snd (serve_all cfg rs st)) = es"
    by (rule new_events_append [OF es(1)])
  show "\<forall>m. global_model st = Some m \<longrightarrow>
          global_model (snd (serve_all cfg rs st)) = Some m
          \<and> model_constructions (new_events st (snd (serve_all cfg rs st))) = []"
    using es(2) by (auto simp: ne split: option.splits)
  show "length (filter (\<lambda>r. \<not> isl r) (model_constructions (new_events st (snd (serve_all cfg rs st))))) \<le> 1"
    using es(2) unfolding ne
    by (auto split: option.splits)
  show "global_model st0 = global_model st \<longrightarrow> fst (serve cfg w r st0) = fst (serve cfg w r st)"
  proof
    assume g: "global_model st0 = global_model st"
    show "fst (serve cfg w r st0) = fst (serve cfg w r st)"
    proof (cases r)
      case GET_healthz
      then show ?thesis by (simp add: healthz_def)
    next
      case (POST_upload req)
      with upload_fst [OF g, of cfg w req] show ?thesis by (simp only: fst_serve_upload)
    qed
  qed
qed

text \<open>C7 (amended) from a state with the handle set and from the initial state.\<close>

theorem model_handle_lazy_singleton_witness:
  "get_model ex_cfg ex_world_no_model ex_state_loaded = (Inr (WhisperModelObj 7), ex_state_loaded)
   \<and> global_model (snd (serve_all ex_cfg ex_requests ex_state_loaded)) = Some (WhisperModelObj 7)
   \<and> model_constructions (new_events ex_state_loaded (snd (serve_all ex_cfg ex_requests ex_state_loaded))) = []
   \<and> global_model (snd (get_model ex_cfg ex_world ex_state)) = Some (WhisperModelObj 1)
   \<and> length (filter (\<lambda>r. \<not> isl r)
        (model_constructions (new_events ex_state (snd (serve_all ex_cfg ex_requests ex_state))))) \<le> 1"
proof -
  have s: "global_model ex_state_loaded = Some (WhisperModelObj 7)"
    by (simp add: ex_state_loaded_def)
  have n: "global_model ex_state = None"
    by (simp add: ex_state_def)
  have i: "import_faster_whisper ex_world = None"
    by code_simp
  have c: "WhisperModel ex_world (MODEL_SIZE ex_cfg)
             (if DEVICE ex_cfg = ''auto'' then ''cpu'' else DEVICE ex_cfg)
             (if COMPUTE_TYPE ex_cfg = ''auto'' then ''default'' else COMPUTE_TYPE ex_cfg) =
           Inr (WhisperModelObj 1)"
    by code_simp
  note A = model_handle_lazy_singleton
    [where st = ex_state_loaded and cfg = ex_cfg and w = ex_world_no_model and rs = ex_requests]
  note B = model_handle_lazy_singleton
    [where st = ex_state and cfg = ex_cfg and w = ex_world and rs = ex_requests]
  from A s have
    "get_model ex_cfg ex_world_no_model ex_state_loaded = (Inr (WhisperModelObj 7), ex_state_loaded)
     \<and> global_model (snd (serve_all ex_cfg ex_requests ex_state_loaded)) = Some (WhisperModelObj 7)
     \<and> model_constructions (new_events ex_state_loaded (snd (serve_all ex_cfg ex_requests ex_state_loaded))) = []"
    by blast
  moreover from B n i c have
    "global_model (snd (get_model ex_cfg ex_world ex_state)) = Some (WhisperModelObj 1)"
    by (simp add: Let_def)
  moreover from B have
    "length (filter (\<lambda>r. \<not> isl r)
        (model_constructions (new_events ex_state (snd (serve_all ex_cfg ex_requests ex_state))))) \<le> 1"
    by blast
  ultimately show ?thesis by blast
qed

text \<open>
  C7 as stated fails: when the constructor raises during the first request, the first
  call of \<open>get_model\<close> builds nothing, and it is the call made by the second request that
  constructs the model: the constructor is called twice.
\<close>

theorem model_handle_lazy_singleton_counterexample:
  "model_constructions (trace (snd (serve_all ex_cfg ex_requests ex_state))) =
     [Inl (Exception ''model download failed''), Inr (WhisperModelObj 1)]
   \<and> global_model (snd (upload ex_cfg ex_world_no_model (ex_req ''talk.mp3'') ex_state)) = None
   \<and> global_model (snd (serve_all ex_cfg ex_requests ex_state)) = Some (WhisperModelObj 1)"
  by code_simp

subsection \<open>The two endpoints\<close>






end
